theory Spec2Isabelle
  imports Complex_Main
begin

section \<open>JavaScript values used by the two widgets\<close>

text \<open>
  A finite JavaScript number is the rational it denotes, and \<open>Math.round\<close>,
  \<open>Math.ceil\<close> and \<open>Math.floor\<close> are exact on it: numbers are modelled as
  \<open>rat\<close>. \<open>Math.round\<close> rounds a tie towards plus infinity, that is
  \<open>floor (x + 1/2)\<close>. \<open>parseFloat\<close> of a finite number is that number, so it
  does not appear. NaN and the infinities are left out of the slider model.
\<close>

definition Math_round :: "rat \<Rightarrow> rat" where
  "Math_round x = of_int \<lfloor>x + 1 / 2\<rfloor>"

definition Math_ceil :: "rat \<Rightarrow> rat" where
  "Math_ceil x = of_int \<lceil>x\<rceil>"

definition Math_floor :: "rat \<Rightarrow> rat" where
  "Math_floor x = of_int \<lfloor>x\<rfloor>"

text \<open>
  Modelled from the spec: the constants \<open>PROJECTION.NORMAL\<close> and
  \<open>PROJECTION.INTMAX\<close> of utils/constants, which the spec gives as the enum
  NORMAL | INTMAX.
\<close>

datatype projection = NORMAL | INTMAX

datatype error = TypeError | SliderNotInitialized

section \<open>Data model\<close>

record projection_opts =
  opts_start :: rat
  opts_end :: rat

text \<open>
  Records carry the source's field names; a name that is taken in HOL or by another
  record is prefixed (\<open>conf_id\<close> for the \<open>id\<close> of the ImageConfig,
  \<open>entry_prop\<close> for \<open>prop\<close>, \<open>opts_\<close>, \<open>win_\<close>, \<open>player_\<close>,
  \<open>cs_\<close>).
\<close>

record window =
  win_start :: rat
  win_end :: rat
  win_min :: rat
  win_max :: rat

record channel =
  active :: bool
  color :: string
  window :: window

text \<open>
  \<open>dimensions\<close> maps a key (the dimension code, or \<open>max_\<close> followed by the code)
  to its number; ImageInfo initialises every key the sliders read. \<open>channels\<close> is
  \<open>None\<close> while it is not an array.
\<close>

record image_info =
  dimensions :: "string \<Rightarrow> rat"
  projection :: projection
  projection_opts :: projection_opts
  ready :: bool
  channels :: "channel list option"

datatype hval = HNull | HNumber rat | HProjection projection | HOpts projection_opts

record hist_entry =
  entry_prop :: "string list"
  old_val :: hval
  new_val :: hval
  type :: string

text \<open>
  \<open>history\<close> is the undo stack of the ImageConfig: one element for each call of
  \<open>addHistory\<close>, holding the entries handed over in that call.
\<close>

record image_config =
  conf_id :: nat
  image_info :: image_info
  history :: "hist_entry list list"

text \<open>
  Modelled from the spec: \<open>ImageConfig.addHistory\<close>, which is not part of the two
  source files; history records are appended to the configuration-owned undo stack. A
  single entry is handed over as a one-element list.
\<close>

definition addHistory :: "hist_entry list \<Rightarrow> image_config \<Rightarrow> image_config" where
  "addHistory entries conf = conf\<lparr>history := history conf @ [entries]\<rparr>"

record player_info =
  player_dim :: "string option"
  player_forwards :: "bool option"
  player_handle :: "nat option"

text \<open>
  An event is the topic and the payload of one \<open>context.publish(topic, payload)\<close>:
  \<open>{config_id, dim, value}\<close>, \<open>{config_id, dim, forwards, stop}\<close>,
  \<open>{config_id, projection}\<close> and \<open>{config_id, ranges}\<close>, a range being
  \<open>{index, start, end, color, active}\<close>.
\<close>

datatype topic = IMAGE_DIMENSION_CHANGE | IMAGE_DIMENSION_PLAY | IMAGE_SETTINGS_CHANGE

datatype payload =
    Dimension_value nat string "rat list"
  | Dimension_play nat string bool bool
  | Settings_projection nat projection
  | Settings_ranges "nat option" "(nat \<times> rat \<times> rat \<times> string \<times> bool) list"

type_synonym event = "topic \<times> payload"

text \<open>
  The binding engine is an external collaborator. Its model keeps the live
  subscriptions: \<open>propertyObserver(obj, prop).subscribe(callback)\<close> returns a fresh
  handle, and \<open>dispose\<close> on a handle ends that subscription (a second dispose of the
  same handle changes nothing).
\<close>

datatype observed =
    Obs_dimension string
  | Obs_projection
  | Obs_projection_opts
  | Obs_ready
  | Obs_channel nat "string option" string

record binding_engine =
  subscriptions :: "(nat \<times> observed) list"
  next_handle :: nat

definition subscribe :: "observed \<Rightarrow> binding_engine \<Rightarrow> nat \<times> binding_engine" where
  "subscribe p e =
     (next_handle e,
      e\<lparr>subscriptions := subscriptions e @ [(next_handle e, p)],
        next_handle := Suc (next_handle e)\<rparr>)"

definition dispose :: "nat \<Rightarrow> binding_engine \<Rightarrow> binding_engine" where
  "dispose h e = e\<lparr>subscriptions := filter (\<lambda>(h', p). h' \<noteq> h) (subscriptions e)\<rparr>"

text \<open>
  The jQuery UI slider is an external collaborator too. The model keeps the options of
  the widget instance that sits on the selected element (\<open>None\<close> while no widget has
  been constructed there), and which of the two \<open>change\<close> callbacks of
  \<open>initSlider\<close> was installed.
\<close>

datatype orientation = Vertical | Horizontal

datatype change_handler = Change_projection | Change_dimension

record slider_options =
  opt_orientation :: orientation
  opt_min :: rat
  opt_max :: rat
  opt_step :: rat
  opt_value :: rat
  opt_values :: "(rat \<times> rat) option"
  opt_change :: change_handler

record dimension_slider =
  image_config :: "image_config option"
  elSelector :: "string option"
  dim :: string
  player_info :: player_info
  observers :: "nat list"
  image_info_ready_observer :: "nat option"
  last_player_start :: "rat option"
  add_projection_history :: bool
  published :: "event list"
  bindingEngine :: binding_engine
  slider :: "slider_options option"
  element_shown :: bool
  slider_value_shown :: bool

definition then_do :: "error + 'a \<Rightarrow> ('a \<Rightarrow> error + 'b) \<Rightarrow> error + 'b" where
  "then_do r f = (case r of Inl e \<Rightarrow> Inl e | Inr x \<Rightarrow> f x)"

text \<open>\<open>this.context.publish(topic, payload)\<close>: the events sent, oldest first.\<close>

definition publish :: "topic \<Rightarrow> payload \<Rightarrow> dimension_slider \<Rightarrow> dimension_slider" where
  "publish tp pl s = s\<lparr>published := published s @ [(tp, pl)]\<rparr>"

text \<open>
  \<open>$(this.elSelector).slider(method, ...)\<close>: a null selector selects nothing and the
  call does nothing; on an element without a widget instance jQuery UI raises
  ("cannot call methods on slider prior to initialization"). A setter stores the option
  as it is given: the widget's trimming of a value to its range and the \<open>change\<close>
  callback it fires outside a key or mouse slide are not part of this helper, which
  stands for the calls made by \<open>changeProjection\<close>, by the \<open>slide\<close> callback
  (inside a slide, with a value between the integer bounds) and by the dimension
  observer.
\<close>

definition slider_method ::
  "(slider_options \<Rightarrow> slider_options) \<Rightarrow> dimension_slider \<Rightarrow> error + dimension_slider" where
  "slider_method f s =
     (case elSelector s of
        None \<Rightarrow> Inr s
      | Some sel \<Rightarrow>
          (case slider s of
             None \<Rightarrow> Inl SliderNotInitialized
           | Some w \<Rightarrow> Inr (s\<lparr>slider := Some (f w)\<rparr>)))"

definition slider_destroy :: "dimension_slider \<Rightarrow> error + dimension_slider" where
  "slider_destroy s =
     (case elSelector s of
        None \<Rightarrow> Inr s
      | Some sel \<Rightarrow>
          (case slider s of
             None \<Rightarrow> Inl SliderNotInitialized
           | Some w \<Rightarrow> Inr (s\<lparr>slider := None\<rparr>)))"

text \<open>\<open>$(this.elSelector).slider(options)\<close>: the widget is created with these options.\<close>

definition slider_construct :: "slider_options \<Rightarrow> dimension_slider \<Rightarrow> dimension_slider" where
  "slider_construct options s =
     (case elSelector s of None \<Rightarrow> s | Some sel \<Rightarrow> s\<lparr>slider := Some options\<rparr>)"

section \<open>DimensionSlider\<close>

definition playDimension :: "bool \<Rightarrow> dimension_slider \<Rightarrow> error + dimension_slider" where
  "playDimension forwards s =
     (case image_config s of
        None \<Rightarrow> Inl TypeError
      | Some conf \<Rightarrow>
          if dim s = ''z'' \<and> projection (image_info conf) = INTMAX then Inr s
          else
            let stop =
                  (player_dim (player_info s) \<noteq> None \<and>
                   player_dim (player_info s) = Some (dim s) \<and>
                   player_forwards (player_info s) = Some forwards);
                s1 =
                  (if stop
                   then s\<lparr>image_config := Some (addHistory
                          [\<lparr>entry_prop = [''image_info'', ''dimensions'', dim s],
                            old_val = (case last_player_start s of
                                         None \<Rightarrow> HNull | Some v \<Rightarrow> HNumber v),
                            new_val = HNumber (dimensions (image_info conf) (dim s)),
                            type = ''number''\<rparr>] conf)\<rparr>
                   else s\<lparr>last_player_start :=
                          Some (dimensions (image_info conf) (dim s))\<rparr>)
            in Inr (publish IMAGE_DIMENSION_PLAY (Dimension_play (conf_id conf) (dim s) forwards stop) s1))"

text \<open>The decimal digits of a number, as string concatenation in \<open>bind\<close> produces them.\<close>

fun digits :: "nat \<Rightarrow> string" where
  "digits n =
     (if n < 10 then [char_of (48 + n)]
      else digits (n div 10) @ [char_of (48 + n mod 10)])"

declare digits.simps [simp del]

definition bind :: "dimension_slider \<Rightarrow> error + dimension_slider" where
  "bind s =
     (case image_config s of
        None \<Rightarrow> Inl TypeError
      | Some conf \<Rightarrow>
          Inr (s\<lparr>elSelector := Some (''#'' @ digits (conf_id conf) @
                 '' [dim='' @ [CHR 0x27] @ dim s @ [CHR 0x27] @ '']'' @
                 '' [name='' @ [CHR 0x27] @ ''dim'' @ [CHR 0x27] @ '']'')\<rparr>))"

definition detached :: "dimension_slider \<Rightarrow> error + dimension_slider" where
  "detached s =
     (let s1 = (case slider_destroy s of Inl ignored \<Rightarrow> s | Inr s' \<Rightarrow> s')
      in Inr (s1\<lparr>element_shown := False\<rparr>))"

definition unregisterObservers :: "dimension_slider \<Rightarrow> error + dimension_slider" where
  "unregisterObservers s =
     (let s1 = s\<lparr>bindingEngine := foldl (\<lambda>e h. dispose h e) (bindingEngine s) (observers s)\<rparr>;
          s2 = s1\<lparr>observers := []\<rparr>
      in case image_info_ready_observer s2 of
           None \<Rightarrow> Inr s2
         | Some h \<Rightarrow>
             Inr (s2\<lparr>bindingEngine := dispose h (bindingEngine s2),
                    image_info_ready_observer := None\<rparr>))"

definition push_observer :: "observed \<Rightarrow> dimension_slider \<Rightarrow> dimension_slider" where
  "push_observer p s =
     (let (h, e) = subscribe p (bindingEngine s)
      in s\<lparr>bindingEngine := e, observers := observers s @ [h]\<rparr>)"

definition registerObservers :: "dimension_slider \<Rightarrow> error + dimension_slider" where
  "registerObservers s =
     (case image_config s of
        None \<Rightarrow> Inl TypeError
      | Some conf \<Rightarrow>
          Inr (push_observer Obs_projection_opts
                (push_observer Obs_projection
                  (push_observer (Obs_dimension (dim s)) s))))"

text \<open>
  \<open>changeProjection(values, toggle)\<close>: \<open>values\<close> is \<open>None\<close> when the argument is
  not an array. The two assignments go to the fields of the existing
  \<open>projection_opts\<close> object.
\<close>

definition changeProjection ::
  "(rat \<times> rat) option \<Rightarrow> bool \<Rightarrow> dimension_slider \<Rightarrow> error + dimension_slider" where
  "changeProjection values toggle s =
     (case image_config s of
        None \<Rightarrow> Inl TypeError
      | Some conf \<Rightarrow>
          then_do
            (case values of
               Some (v0, v1) \<Rightarrow>
                 let values0 = Math_round v0;
                     values1 = Math_round v1;
                     oldOpts = projection_opts (image_info conf);
                     newOpts = oldOpts\<lparr>opts_start := values0, opts_end := values1\<rparr>;
                     conf1 = conf\<lparr>image_info :=
                               (image_info conf)\<lparr>projection_opts := newOpts\<rparr>\<rparr>
                 in then_do
                      (slider_method (\<lambda>w. w\<lparr>opt_values := Some (values0, values1)\<rparr>)
                         (s\<lparr>image_config := Some conf1\<rparr>))
                      (\<lambda>s1.
                         if add_projection_history s1
                         then
                           let entries =
                                 (if toggle
                                  then [\<lparr>entry_prop = [''image_info'', ''projection''],
                                         old_val = HProjection NORMAL,
                                         new_val = HProjection INTMAX,
                                         type = ''string''\<rparr>]
                                  else [\<lparr>entry_prop = [''image_info'', ''projection_opts''],
                                         old_val = HOpts oldOpts,
                                         new_val = HOpts newOpts,
                                         type = ''object''\<rparr>])
                           in Inr (s1\<lparr>image_config := Some (addHistory entries conf1),
                                     add_projection_history := False\<rparr>)
                         else Inr s1)
             | None \<Rightarrow>
                 if toggle \<and> add_projection_history s
                 then Inr (s\<lparr>image_config := Some (addHistory
                             [\<lparr>entry_prop = [''image_info'', ''projection''],
                               old_val = HProjection INTMAX,
                               new_val = HProjection NORMAL,
                               type = ''string''\<rparr>] conf),
                           add_projection_history := False\<rparr>)
                 else Inr s)
            (\<lambda>s2.
               case image_config s2 of
                 None \<Rightarrow> Inl TypeError
               | Some conf2 \<Rightarrow>
                   Inr (publish IMAGE_SETTINGS_CHANGE
                          (Settings_projection (conf_id conf2) (projection (image_info conf2))) s2)))"

text \<open>
  \<open>initSlider(toggle)\<close>. The \<open>slide\<close> and \<open>stop\<close> callbacks are the same for
  every widget and are the functions \<open>slide\<close> and \<open>stop\<close> below; \<open>opt_change\<close> says
  which \<open>change\<close> callback was installed. jQuery UI's defaults are \<open>value: 0\<close> and
  \<open>values: null\<close>.
\<close>

definition initSlider :: "bool \<Rightarrow> dimension_slider \<Rightarrow> error + dimension_slider" where
  "initSlider toggle s =
     (case image_config s of
        None \<Rightarrow> Inl TypeError
      | Some conf \<Rightarrow>
          let imgInf = image_info conf
          in if dimensions imgInf (''max_'' @ dim s) \<le> 1 then Inr s
             else
               let options0 =
                     \<lparr>opt_orientation = (if dim s = ''z'' then Vertical else Horizontal),
                      opt_min = 0,
                      opt_max = dimensions imgInf (''max_'' @ dim s) - 1,
                      opt_step = 1 / 100,
                      opt_value = 0,
                      opt_values = None,
                      opt_change = Change_dimension\<rparr>;
                   options =
                     (if dim s = ''z'' \<and> projection imgInf = INTMAX
                      then options0\<lparr>opt_change := Change_projection,
                                    opt_values := Some (opts_start (projection_opts imgInf),
                                                        opts_end (projection_opts imgInf))\<rparr>
                      else options0\<lparr>opt_value := dimensions imgInf (dim s),
                                    opt_change := Change_dimension\<rparr>)
               in changeProjection (opt_values options) toggle
                    ((slider_construct options s)\<lparr>element_shown := True\<rparr>))"

text \<open>
  The \<open>slide\<close> callback of \<open>initSlider\<close>. \<open>keyCode\<close> is \<open>Some k\<close> when
  \<open>typeof event.keyCode\<close> is \<open>'number'\<close>; \<open>ui_values\<close> is \<open>Some\<close> when
  \<open>ui.values\<close> is an array. The result \<open>False\<close> is the returned \<open>false\<close> (the
  slide is rejected), \<open>True\<close> is a return without a value. \<open>handles_crossed\<close>
  is the test made when \<open>ui.values\<close> is an array. Of the tooltip span only its
  visibility is kept.
\<close>

definition handles_crossed :: "rat \<Rightarrow> (rat \<times> rat) option \<Rightarrow> bool" where
  "handles_crossed ui_value ui_values =
     (case ui_values of
        None \<Rightarrow> False
      | Some (values0, values1) \<Rightarrow>
          let idx = (if values0 = ui_value then 0
                     else if values1 = ui_value then 1 else -1 :: int)
          in (idx = 0 \<and> ui_value \<ge> values1) \<or> (idx = 1 \<and> ui_value \<le> values0))"

definition slide ::
  "nat option \<Rightarrow> rat \<Rightarrow> (rat \<times> rat) option \<Rightarrow> dimension_slider \<Rightarrow>
   error + (bool \<times> dimension_slider)" where
  "slide keyCode ui_value ui_values s =
     (if player_handle (player_info s) \<noteq> None then Inr (False, s)
      else if handles_crossed ui_value ui_values then Inr (False, s)
      else
        (case keyCode of
           Some k \<Rightarrow>
             let upKey = (k = 38 \<or> k = 39);
                 downKey = (k = 37 \<or> k = 40);
                 newVal = (if upKey then Math_ceil ui_value
                           else if downKey then Math_floor ui_value
                           else ui_value)
             in then_do (slider_method (\<lambda>w. w\<lparr>opt_value := newVal\<rparr>) s)
                  (\<lambda>s1. Inr (False, s1))
         | None \<Rightarrow> Inr (True, s\<lparr>slider_value_shown := True\<rparr>)))"

definition stop :: "dimension_slider \<Rightarrow> dimension_slider" where
  "stop s = s\<lparr>slider_value_shown := False\<rparr>"

definition onChange :: "rat \<Rightarrow> bool \<Rightarrow> dimension_slider \<Rightarrow> error + dimension_slider" where
  "onChange value0 slider_interaction s =
     (let value = Math_round value0
      in case image_config s of
           None \<Rightarrow> Inl TypeError
         | Some conf \<Rightarrow>
             let imgInf = image_info conf;
                 oldValue = dimensions imgInf (dim s)
             in if value = oldValue then Inr s
                else
                  let conf1 =
                        (if slider_interaction
                         then addHistory
                                [\<lparr>entry_prop = [''image_info'', ''dimensions'', dim s],
                                  old_val = HNumber oldValue, new_val = HNumber value,
                                  type = ''number''\<rparr>] conf
                         else conf)
                  in Inr (s\<lparr>image_config := Some (conf1\<lparr>image_info :=
                            (image_info conf1)\<lparr>dimensions :=
                               (dimensions (image_info conf1))(dim s := value)\<rparr>\<rparr>)\<rparr>))"

text \<open>
  The \<open>change\<close> callback installed by \<open>initSlider\<close>; \<open>originalEvent\<close> says
  whether \<open>event.originalEvent\<close> is set, that is whether the user caused the change.
\<close>

definition change ::
  "bool \<Rightarrow> rat \<Rightarrow> (rat \<times> rat) option \<Rightarrow> dimension_slider \<Rightarrow> error + dimension_slider" where
  "change originalEvent ui_value ui_values s =
     (case slider s of
        None \<Rightarrow> Inr s
      | Some w \<Rightarrow>
          (case opt_change w of
             Change_projection \<Rightarrow>
               if originalEvent
               then changeProjection ui_values False (s\<lparr>add_projection_history := True\<rparr>)
               else Inr s
           | Change_dimension \<Rightarrow> onChange ui_value originalEvent s))"

definition unbind :: "dimension_slider \<Rightarrow> error + dimension_slider" where
  "unbind s = then_do (unregisterObservers s) (\<lambda>s1. Inr (s1\<lparr>image_config := None\<rparr>))"

definition toggleProjection :: "dimension_slider \<Rightarrow> error + dimension_slider" where
  "toggleProjection s =
     (if player_handle (player_info s) \<noteq> None then Inr s
      else
        (case image_config s of
           None \<Rightarrow> Inl TypeError
         | Some conf \<Rightarrow>
             let imgInf = image_info conf;
                 opts1 = (projection_opts imgInf)\<lparr>opts_start := dimensions imgInf (dim s)\<rparr>;
                 opts2 = opts1\<lparr>opts_end := dimensions imgInf (''max_'' @ dim s) - 1\<rparr>;
                 imgInf1 = imgInf\<lparr>projection_opts := opts2\<rparr>;
                 imgInf2 = imgInf1\<lparr>projection :=
                             (if projection imgInf1 = NORMAL then INTMAX else NORMAL)\<rparr>
             in Inr (s\<lparr>add_projection_history := True,
                      image_config := Some (conf\<lparr>image_info := imgInf2\<rparr>)\<rparr>)))"

text \<open>
  The three callbacks subscribed in \<open>registerObservers\<close>, each run by the binding
  engine after the observed property was assigned a new value.
\<close>

definition dimension_observer :: "rat \<Rightarrow> dimension_slider \<Rightarrow> error + dimension_slider" where
  "dimension_observer newValue s =
     then_do (slider_method (\<lambda>w. w\<lparr>opt_value := newValue\<rparr>) s)
       (\<lambda>s1.
          case image_config s1 of
            None \<Rightarrow> Inl TypeError
          | Some conf \<Rightarrow>
              Inr (publish IMAGE_DIMENSION_CHANGE
                     (Dimension_value (conf_id conf) (dim s1) [newValue]) s1))"

definition projection_observer :: "dimension_slider \<Rightarrow> error + dimension_slider" where
  "projection_observer s = then_do (detached s) (initSlider True)"

definition projection_opts_observer ::
  "projection_opts \<Rightarrow> dimension_slider \<Rightarrow> error + dimension_slider" where
  "projection_opts_observer newValue s =
     changeProjection (Some (opts_start newValue, opts_end newValue)) False s"

definition imageDataReady :: "dimension_slider \<Rightarrow> error + dimension_slider" where
  "imageDataReady s = then_do (registerObservers s) (initSlider False)"

definition attached :: "dimension_slider \<Rightarrow> error + dimension_slider" where
  "attached s =
     (case image_config s of
        None \<Rightarrow> Inl TypeError
      | Some conf \<Rightarrow>
          if ready (image_info conf) then imageDataReady s
          else
            let (h, e) = subscribe Obs_ready (bindingEngine s)
            in Inr (s\<lparr>bindingEngine := e, image_info_ready_observer := Some h\<rparr>))"

section \<open>ChannelSettings\<close>

text \<open>
  The argument of \<open>onModeChange\<close> can be any JavaScript value; \<open>this.mode\<close> is null
  (\<open>None\<close>) or a number, which after \<open>parseInt\<close> may be NaN.
\<close>

datatype jsnumber = Num rat | NaN | PosInfinity | NegInfinity

datatype jsval = JUndefined | JNull | JBoolean bool | JNumber jsnumber | JString string | JObject

definition MIN_MAX :: jsnumber where "MIN_MAX = Num 0"
definition FULL_RANGE :: jsnumber where "FULL_RANGE = Num 1"
definition IMPORTED :: jsnumber where "IMPORTED = Num 2"

text \<open>\<open>a < b\<close> and \<open>a === b\<close> on numbers: every comparison with NaN is false.\<close>

fun js_less :: "jsnumber \<Rightarrow> jsnumber \<Rightarrow> bool" where
  "js_less NaN b = False"
| "js_less a NaN = False"
| "js_less (Num a) (Num b) = (a < b)"
| "js_less NegInfinity b = (b \<noteq> NegInfinity)"
| "js_less a PosInfinity = (a \<noteq> PosInfinity)"
| "js_less a b = False"

fun js_strict_equal :: "jsnumber \<Rightarrow> jsnumber \<Rightarrow> bool" where
  "js_strict_equal NaN b = False"
| "js_strict_equal a NaN = False"
| "js_strict_equal a b = (a = b)"

text \<open>
  \<open>mode_notifications\<close> is the list of values the observers of \<open>mode\<close> were
  notified of, \<open>timeouts\<close> the callbacks handed to \<open>setTimeout\<close> that have not
  run yet (each is \<open>() => this.mode = mode\<close>, kept as its \<open>mode\<close>), and
  \<open>bus_subscribed\<close> whether the handlers of \<open>sub_list\<close> are subscribed.
\<close>

record channel_settings =
  config_id :: "nat option"
  cs_image_info :: "image_info option"
  mode :: "jsnumber option"
  cs_observers :: "nat list"
  cs_bindingEngine :: binding_engine
  cs_published :: "event list"
  bus_subscribed :: bool
  mode_click_handler :: bool
  mode_notifications :: "jsnumber option list"
  timeouts :: "jsnumber list"

text \<open>
  Modelled from the spec: the reactive observer of \<open>mode\<close> in the components bound to
  it, which are not part of the two source files. An assignment of a different value
  notifies it; the reselection of the same value is ignored.
\<close>

definition set_mode :: "jsnumber option \<Rightarrow> channel_settings \<Rightarrow> channel_settings" where
  "set_mode v s =
     (if (case (mode s, v) of
            (None, None) \<Rightarrow> True
          | (Some a, Some b) \<Rightarrow> js_strict_equal a b
          | _ \<Rightarrow> False)
      then s\<lparr>mode := v\<rparr>
      else s\<lparr>mode := v, mode_notifications := mode_notifications s @ [v]\<rparr>)"

text \<open>
  Modelled from the spec: \<open>subscribe\<close> and \<open>unsubscribe\<close> of the base class
  EventSubscriber, which is not part of the two source files; they subscribe to and
  unsubscribe from the configuration-changed notification.
\<close>

definition cs_subscribe :: "channel_settings \<Rightarrow> channel_settings" where
  "cs_subscribe s = s\<lparr>bus_subscribed := True\<rparr>"

definition cs_unsubscribe :: "channel_settings \<Rightarrow> channel_settings" where
  "cs_unsubscribe s = s\<lparr>bus_subscribed := False\<rparr>"

definition observedProperties :: "(string option \<times> string) list" where
  "observedProperties =
     [(None, ''active''), (None, ''color''),
      (Some ''window'', ''start''), (Some ''window'', ''end'')]"

definition cs_unregisterObservers :: "channel_settings \<Rightarrow> channel_settings" where
  "cs_unregisterObservers s =
     s\<lparr>cs_bindingEngine := foldl (\<lambda>e h. dispose h e) (cs_bindingEngine s) (cs_observers s),
       cs_observers := []\<rparr>"

definition cs_push_observer :: "observed \<Rightarrow> channel_settings \<Rightarrow> channel_settings" where
  "cs_push_observer p s =
     (let (h, e) = subscribe p (cs_bindingEngine s)
      in s\<lparr>cs_bindingEngine := e, cs_observers := cs_observers s @ [h]\<rparr>)"

definition cs_registerObservers :: "channel_settings \<Rightarrow> channel_settings" where
  "cs_registerObservers s =
     (case cs_image_info s of
        None \<Rightarrow> s
      | Some info \<Rightarrow>
          (case channels info of
             None \<Rightarrow> s
           | Some cs \<Rightarrow>
               foldl (\<lambda>s1 i.
                        foldl (\<lambda>s2 obsProp.
                                 cs_push_observer (Obs_channel i (fst obsProp) (snd obsProp)) s2)
                          s1 observedProperties)
                 (cs_unregisterObservers s) [0..<length cs]))"

text \<open>
  \<open>bind()\<close>. \<open>channels.map\<close> raises a TypeError when \<open>channels\<close> is not an array.
\<close>

definition cs_bind :: "channel_settings \<Rightarrow> error + channel_settings" where
  "cs_bind s =
     (let s1 = cs_registerObservers (cs_subscribe s);
          s2 = s1\<lparr>mode_click_handler := True\<rparr>
      in case cs_image_info s2 of
           None \<Rightarrow> Inr s2
         | Some info \<Rightarrow>
             (case channels info of
                None \<Rightarrow> Inl TypeError
              | Some cs \<Rightarrow>
                  let needsFullRangeMode =
                        foldl (\<lambda>needs c.
                                 if win_start (window c) < win_min (window c) \<or>
                                    win_end (window c) > win_max (window c)
                                 then True else needs)
                          False cs
                  in if needsFullRangeMode then Inr (set_mode (Some FULL_RANGE) s2)
                     else Inr (set_mode (Some MIN_MAX) s2)))"

text \<open>
  \<open>onModeChange(mode)\<close>; \<open>setTimeout(callback, 0)\<close> queues the callback, and
  \<open>run_timeout\<close> is the later tick of the event loop that runs the oldest one.
\<close>

definition onModeChange :: "jsval \<Rightarrow> channel_settings \<Rightarrow> channel_settings" where
  "onModeChange m s =
     (case m of
        JNumber n \<Rightarrow>
          if js_less n (Num 0) \<or> js_less (Num 2) n \<or>
             \<not> (case mode s of None \<Rightarrow> False | Some cur \<Rightarrow> js_strict_equal cur n)
          then s
          else (set_mode None s)\<lparr>timeouts := timeouts (set_mode None s) @ [n]\<rparr>
      | _ \<Rightarrow> s)"

definition run_timeout :: "channel_settings \<Rightarrow> channel_settings" where
  "run_timeout s =
     (case timeouts s of
        [] \<Rightarrow> s
      | n # rest \<Rightarrow> set_mode (Some n) (s\<lparr>timeouts := rest\<rparr>))"

definition propagateChannelChanges :: "nat \<Rightarrow> channel_settings \<Rightarrow> error + channel_settings" where
  "propagateChannelChanges index s =
     (case cs_image_info s of
        None \<Rightarrow> Inl TypeError
      | Some info \<Rightarrow>
          (case channels info of
             None \<Rightarrow> Inl TypeError
           | Some cs \<Rightarrow>
               if index < length cs
               then
                 let c = cs ! index
                 in Inr (s\<lparr>cs_published := cs_published s @
                           [(IMAGE_SETTINGS_CHANGE,
                             Settings_ranges (config_id s)
                               [(index, win_start (window c), win_end (window c),
                                 color c, active c)])]\<rparr>)
               else Inl TypeError))"

definition toggleChannel :: "nat \<Rightarrow> channel_settings \<Rightarrow> error + channel_settings" where
  "toggleChannel index s =
     (case cs_image_info s of
        None \<Rightarrow> Inl TypeError
      | Some info \<Rightarrow>
          (case channels info of
             None \<Rightarrow> Inl TypeError
           | Some cs \<Rightarrow>
               if index < length cs
               then Inr (s\<lparr>cs_image_info := Some (info\<lparr>channels :=
                           Some (cs[index := (cs ! index)\<lparr>active :=
                                   (if active (cs ! index) then False else True)\<rparr>])\<rparr>)\<rparr>)
               else Inl TypeError))"

definition cs_unbind :: "channel_settings \<Rightarrow> channel_settings" where
  "cs_unbind s = (cs_unregisterObservers (cs_unsubscribe s))\<lparr>cs_image_info := None\<rparr>"

section \<open>The collaborators that drive the widgets\<close>

text \<open>
  A toggle as the user sees it: \<open>toggleProjection\<close> assigns \<open>projection\<close>, and the
  binding engine then runs the callback subscribed to that property.
\<close>

definition toggle_observed :: "dimension_slider \<Rightarrow> error + dimension_slider" where
  "toggle_observed s = then_do (toggleProjection s) projection_observer"

text \<open>
  jQuery UI's handling of one proposed handle position (\<open>index\<close> 0 is the first
  handle): a proposal equal to the handle's value is dropped, otherwise the \<open>slide\<close>
  callback is asked with the proposed value and the proposed pair of values, and the
  proposal is applied unless the callback returned false. The widget proposes values
  of its own range and step, so a proposal is stored as it is.
\<close>

definition slide_interaction ::
  "nat \<Rightarrow> rat \<Rightarrow> nat option \<Rightarrow> dimension_slider \<Rightarrow> error + dimension_slider" where
  "slide_interaction index newVal keyCode s =
     (case slider s of
        None \<Rightarrow> Inr s
      | Some w \<Rightarrow>
          (case opt_values w of
             Some (values0, values1) \<Rightarrow>
               let currentValue = (if index = 0 then values0 else values1);
                   newValues = (if index = 0 then (newVal, values1) else (values0, newVal))
               in if newVal = currentValue then Inr s
                  else then_do (slide keyCode newVal (Some newValues) s)
                         (\<lambda>(allowed, s1).
                            if \<not> allowed then Inr s1
                            else slider_method (\<lambda>w1. w1\<lparr>opt_values := Some newValues\<rparr>) s1)
           | None \<Rightarrow>
               if newVal = opt_value w then Inr s
               else then_do (slide keyCode newVal None s)
                      (\<lambda>(allowed, s1).
                         if \<not> allowed then Inr s1
                         else slider_method (\<lambda>w1. w1\<lparr>opt_value := newVal\<rparr>) s1)))"

text \<open>
  Modelled from the spec: the external driver of a playback, which is not part of the
  two source files; it executes the stepping and repeatedly calls \<open>onChange\<close>, not as
  a slider interaction.
\<close>

fun play_frames :: "rat list \<Rightarrow> dimension_slider \<Rightarrow> error + dimension_slider" where
  "play_frames [] s = Inr s"
| "play_frames (v # vs) s = then_do (onChange v False s) (play_frames vs)"

section \<open>What a result holds\<close>

definition history_of :: "error + dimension_slider \<Rightarrow> hist_entry list list option" where
  "history_of r = (case r of Inl e \<Rightarrow> None | Inr s \<Rightarrow> map_option history (image_config s))"

definition dimension_of :: "error + dimension_slider \<Rightarrow> rat option" where
  "dimension_of r =
     (case r of
        Inl e \<Rightarrow> None
      | Inr s \<Rightarrow> map_option (\<lambda>conf. dimensions (image_info conf) (dim s)) (image_config s))"

definition projection_opts_of :: "error + dimension_slider \<Rightarrow> projection_opts option" where
  "projection_opts_of r =
     (case r of
        Inl e \<Rightarrow> None
      | Inr s \<Rightarrow> map_option (\<lambda>conf. projection_opts (image_info conf)) (image_config s))"

definition slid_value :: "error + (bool \<times> dimension_slider) \<Rightarrow> rat option" where
  "slid_value r =
     (case r of Inl e \<Rightarrow> None | Inr (allowed, s) \<Rightarrow> map_option opt_value (slider s))"

definition toggle_entry :: "projection \<Rightarrow> projection \<Rightarrow> hist_entry" where
  "toggle_entry a b =
     \<lparr>entry_prop = [''image_info'', ''projection''],
      old_val = HProjection a, new_val = HProjection b, type = ''string''\<rparr>"

definition mode_of :: "error + channel_settings \<Rightarrow> jsnumber option" where
  "mode_of r = (case r of Inl e \<Rightarrow> None | Inr s \<Rightarrow> mode s)"

section \<open>Example states\<close>

text \<open>A z slider at plane 3 of 10, bound but without a widget yet.\<close>

definition ex_info :: image_info where
  "ex_info =
     \<lparr>dimensions = (\<lambda>k. if k = ''z'' then 3 else if k = ''max_z'' then 10 else 1),
      projection = NORMAL,
      projection_opts = \<lparr>opts_start = 5, opts_end = 7\<rparr>,
      ready = True,
      channels = None\<rparr>"

definition ex_conf :: image_config where
  "ex_conf = \<lparr>conf_id = 1, image_info = ex_info, history = []\<rparr>"

definition ex_slider :: dimension_slider where
  "ex_slider =
     \<lparr>image_config = Some ex_conf, elSelector = Some ''#1'', dim = ''z'',
      player_info = \<lparr>player_dim = None, player_forwards = None, player_handle = None\<rparr>,
      observers = [], image_info_ready_observer = None, last_player_start = None,
      add_projection_history = False, published = [],
      bindingEngine = \<lparr>subscriptions = [], next_handle = 0\<rparr>,
      slider = None, element_shown = False, slider_value_shown = False\<rparr>"


text \<open>The same slider in max-intensity projection.\<close>

definition ex_intmax_conf :: image_config where
  "ex_intmax_conf = ex_conf\<lparr>image_info := ex_info\<lparr>projection := INTMAX\<rparr>\<rparr>"

definition ex_intmax :: dimension_slider where
  "ex_intmax = ex_slider\<lparr>image_config := Some ex_intmax_conf\<rparr>"

text \<open>The slider with its single-handle widget constructed.\<close>

definition ex_widget :: slider_options where
  "ex_widget =
     \<lparr>opt_orientation = Vertical, opt_min = 0, opt_max = 9, opt_step = 1 / 100,
      opt_value = 3, opt_values = None, opt_change = Change_dimension\<rparr>"

definition ex_shown :: dimension_slider where
  "ex_shown = ex_slider\<lparr>slider := Some ex_widget, element_shown := True\<rparr>"

text \<open>The projection slider with its dual-handle widget at 5 and 7.\<close>

definition ex_dual_widget :: slider_options where
  "ex_dual_widget =
     \<lparr>opt_orientation = Vertical, opt_min = 0, opt_max = 9, opt_step = 1 / 100,
      opt_value = 0, opt_values = Some (5, 7), opt_change = Change_projection\<rparr>"

definition ex_dual :: dimension_slider where
  "ex_dual = ex_intmax\<lparr>slider := Some ex_dual_widget, element_shown := True\<rparr>"

text \<open>The slider after \<open>registerObservers\<close>.\<close>

definition ex_registered :: dimension_slider where
  "ex_registered =
     ex_slider\<lparr>observers := [0, 1, 2],
       bindingEngine := \<lparr>subscriptions = [(0, Obs_dimension ''z''), (1, Obs_projection),
                                          (2, Obs_projection_opts)],
                        next_handle = 3\<rparr>\<rparr>"

text \<open>
  Channels with the bounds 0 and 255, and a ChannelSettings bound to them in full-range
  mode.
\<close>

definition ex_channel :: "rat \<Rightarrow> rat \<Rightarrow> channel" where
  "ex_channel a b =
     \<lparr>active = True, color = ''FF0000'',
      window = \<lparr>win_start = a, win_end = b, win_min = 0, win_max = 255\<rparr>\<rparr>"

definition ex_settings :: "channel list \<Rightarrow> channel_settings" where
  "ex_settings cs =
     \<lparr>config_id = Some 1, cs_image_info = Some (ex_info\<lparr>channels := Some cs\<rparr>),
      mode = Some FULL_RANGE, cs_observers = [],
      cs_bindingEngine = \<lparr>subscriptions = [], next_handle = 0\<rparr>,
      cs_published = [], bus_subscribed = False, mode_click_handler = False,
      mode_notifications = [], timeouts = []\<rparr>"

section \<open>Properties\<close>

lemma Math_round_int: "Math_round v \<in> \<int>"
  by (simp add: Math_round_def)

lemma Math_round_near: "\<bar>Math_round v - v\<bar> \<le> 1 / 2"
  unfolding Math_round_def by linarith

lemma Math_round_mono: "a \<le> b \<Longrightarrow> Math_round a \<le> Math_round b"
  unfolding Math_round_def by (simp add: floor_mono)

lemma round_17_5: "Math_round (17 / 5) = 3"
  unfolding Math_round_def by code_simp

lemma round_23_5: "Math_round (23 / 5) = 5"
  unfolding Math_round_def by code_simp

subsection \<open>onChange\<close>

text \<open>
  C4. When the rounded value is the value the model already holds, \<open>onChange\<close>
  returns the state it was given, for either value of \<open>slider_interaction\<close>: the
  model is not assigned, so no observer is triggered, the history is as it was and no
  event is published.
\<close>

theorem onChange_same_value_noop:
  "image_config s = Some conf \<Longrightarrow>
   Math_round v = dimensions (image_info conf) (dim s) \<Longrightarrow>
   onChange v slider_interaction s = Inr s"
  by (simp add: onChange_def)

theorem onChange_same_value_noop_witness:
  "onChange (17 / 5) True ex_slider = Inr ex_slider \<and>
   onChange (17 / 5) False ex_slider = Inr ex_slider"
  using onChange_same_value_noop [of ex_slider ex_conf "17 / 5" True]
        onChange_same_value_noop [of ex_slider ex_conf "17 / 5" False]
  by (simp add: ex_slider_def ex_conf_def ex_info_def round_17_5)

text \<open>
  C3. When the rounded value differs from the model's, \<open>onChange\<close> assigns the
  rounded value, an integer nearest to the input, to \<open>dimensions[dim]\<close>; with
  \<open>slider_interaction\<close> it first appends exactly one history entry holding the old
  and the rounded value, without it the history stays as it was.
\<close>

theorem onChange_new_value:
  assumes "image_config s = Some conf"
    and "Math_round v \<noteq> dimensions (image_info conf) (dim s)"
  shows "onChange v slider_interaction s =
           Inr (s\<lparr>image_config := Some (conf\<lparr>
                  history := history conf @
                    (if slider_interaction
                     then [[\<lparr>entry_prop = [''image_info'', ''dimensions'', dim s],
                             old_val = HNumber (dimensions (image_info conf) (dim s)),
                             new_val = HNumber (Math_round v),
                             type = ''number''\<rparr>]]
                     else []),
                  image_info := (image_info conf)\<lparr>dimensions :=
                    (dimensions (image_info conf))(dim s := Math_round v)\<rparr>\<rparr>)\<rparr>) \<and>
         Math_round v \<in> \<int> \<and> \<bar>Math_round v - v\<bar> \<le> 1 / 2"
proof (intro conjI)
  show "Math_round v \<in> \<int>" by (rule Math_round_int)
  show "\<bar>Math_round v - v\<bar> \<le> 1 / 2" by (rule Math_round_near)
qed (use assms in \<open>simp add: onChange_def addHistory_def Let_def\<close>)

theorem onChange_new_value_witness:
  "history_of (onChange (23 / 5) True ex_slider) =
     Some [[\<lparr>entry_prop = [''image_info'', ''dimensions'', ''z''],
             old_val = HNumber 3, new_val = HNumber 5, type = ''number''\<rparr>]] \<and>
   dimension_of (onChange (23 / 5) True ex_slider) = Some 5 \<and>
   history_of (onChange (23 / 5) False ex_slider) = Some [] \<and>
   dimension_of (onChange (23 / 5) False ex_slider) = Some 5"
  using onChange_new_value [of ex_slider ex_conf "23 / 5" True]
        onChange_new_value [of ex_slider ex_conf "23 / 5" False]
  by (simp add: ex_slider_def ex_conf_def ex_info_def round_23_5 history_of_def dimension_of_def)

subsection \<open>playDimension\<close>

text \<open>
  C10. For the z slider in max-intensity projection \<open>playDimension\<close> returns the
  state it was given, for either direction: no event, no history entry, and
  \<open>last_player_start\<close> as it was.
\<close>

theorem playDimension_z_intmax_noop:
  "image_config s = Some conf \<Longrightarrow> dim s = ''z'' \<Longrightarrow>
   projection (image_info conf) = INTMAX \<Longrightarrow> playDimension forwards s = Inr s"
  by (simp add: playDimension_def)

theorem playDimension_z_intmax_noop_witness:
  "playDimension True ex_intmax = Inr ex_intmax \<and>
   playDimension False ex_intmax = Inr ex_intmax"
  using playDimension_z_intmax_noop [of ex_intmax ex_intmax_conf True]
        playDimension_z_intmax_noop [of ex_intmax ex_intmax_conf False]
  by (simp add: ex_intmax_def ex_intmax_conf_def ex_slider_def)

lemma stop_call_eq:
  assumes "image_config s = Some conf"
    and "\<not> (dim s = ''z'' \<and> projection (image_info conf) = INTMAX)"
    and "player_dim (player_info s) = Some (dim s)"
    and "player_forwards (player_info s) = Some forwards"
  shows "playDimension forwards s =
           Inr (s\<lparr>image_config := Some (conf\<lparr>history := history conf @
                    [[\<lparr>entry_prop = [''image_info'', ''dimensions'', dim s],
                       old_val = (case last_player_start s of
                                    None \<Rightarrow> HNull | Some v \<Rightarrow> HNumber v),
                       new_val = HNumber (dimensions (image_info conf) (dim s)),
                       type = ''number''\<rparr>]]\<rparr>),
                  published := published s @
                    [(IMAGE_DIMENSION_PLAY,
                      Dimension_play (conf_id conf) (dim s) forwards True)]\<rparr>)"
  using assms by (auto simp add: playDimension_def addHistory_def publish_def Let_def)

lemma start_call_eq:
  assumes "image_config s = Some conf"
    and "\<not> (dim s = ''z'' \<and> projection (image_info conf) = INTMAX)"
    and "\<not> (player_dim (player_info s) = Some (dim s) \<and>
            player_forwards (player_info s) = Some forwards)"
  shows "playDimension forwards s =
           Inr (s\<lparr>last_player_start := Some (dimensions (image_info conf) (dim s)),
                  published := published s @
                    [(IMAGE_DIMENSION_PLAY,
                      Dimension_play (conf_id conf) (dim s) forwards False)]\<rparr>)"
  using assms by (auto simp add: playDimension_def publish_def Let_def)




text \<open>
  The whole playback: the start records the current value, the frames of the driver add
  no history, and the stop appends the one entry from the start value to the last frame.
\<close>

lemma onChange_frame:
  assumes "image_config s = Some conf"
  shows "\<exists>d. onChange v False s =
           Inr (s\<lparr>image_config := Some (conf\<lparr>image_info :=
                    (image_info conf)\<lparr>dimensions := d\<rparr>\<rparr>)\<rparr>)"
proof (cases "Math_round v = dimensions (image_info conf) (dim s)")
  case True
  have "s = s\<lparr>image_config := Some (conf\<lparr>image_info :=
                    (image_info conf)\<lparr>dimensions := dimensions (image_info conf)\<rparr>\<rparr>)\<rparr>"
    using assms by simp
  moreover have "onChange v False s = Inr s"
    using assms True by (simp add: onChange_def)
  ultimately show ?thesis by metis
next
  case False
  then have "onChange v False s =
      Inr (s\<lparr>image_config := Some (conf\<lparr>image_info := (image_info conf)\<lparr>dimensions :=
             (dimensions (image_info conf))(dim s := Math_round v)\<rparr>\<rparr>)\<rparr>)"
    using assms by (simp add: onChange_def Let_def)
  then show ?thesis by blast
qed

lemma play_frames_result:
  "image_config s = Some conf \<Longrightarrow>
   \<exists>d. play_frames vs s =
          Inr (s\<lparr>image_config := Some (conf\<lparr>image_info :=
                   (image_info conf)\<lparr>dimensions := d\<rparr>\<rparr>)\<rparr>)"
proof (induction vs arbitrary: s conf)
  case Nil
  have "s = s\<lparr>image_config := Some (conf\<lparr>image_info :=
                    (image_info conf)\<lparr>dimensions := dimensions (image_info conf)\<rparr>\<rparr>)\<rparr>"
    using Nil by simp
  then show ?case by (metis play_frames.simps(1))
next
  case (Cons v vs)
  obtain d1 where d1: "onChange v False s =
      Inr (s\<lparr>image_config := Some (conf\<lparr>image_info := (image_info conf)\<lparr>dimensions := d1\<rparr>\<rparr>)\<rparr>)"
    using onChange_frame [OF Cons.prems] by blast
  let ?conf1 = "conf\<lparr>image_info := (image_info conf)\<lparr>dimensions := d1\<rparr>\<rparr>"
  let ?s1 = "s\<lparr>image_config := Some ?conf1\<rparr>"
  have "image_config ?s1 = Some ?conf1" by simp
  from Cons.IH [OF this] obtain d where
    d: "play_frames vs ?s1 = Inr (?s1\<lparr>image_config := Some (?conf1\<lparr>image_info :=
                   (image_info ?conf1)\<lparr>dimensions := d\<rparr>\<rparr>)\<rparr>)"
    by blast
  have "play_frames (v # vs) s = Inr (s\<lparr>image_config := Some (conf\<lparr>image_info :=
                   (image_info conf)\<lparr>dimensions := d\<rparr>\<rparr>)\<rparr>)"
    using d1 d by (simp add: then_do_def)
  then show ?case by blast
qed

lemma play_then_stop_one_entry:
  assumes "image_config s = Some conf"
    and "\<not> (dim s = ''z'' \<and> projection (image_info conf) = INTMAX)"
    and "\<not> (player_dim (player_info s) = Some (dim s) \<and>
            player_forwards (player_info s) = Some forwards)"
  shows "\<exists>s1 s2 conf2.
           playDimension forwards s = Inr s1 \<and>
           play_frames vs (s1\<lparr>player_info :=
               \<lparr>player_dim = Some (dim s), player_forwards = Some forwards,
                player_handle = Some h\<rparr>\<rparr>) = Inr s2 \<and>
           image_config s2 = Some conf2 \<and>
           history_of (playDimension forwards s2) =
             Some (history conf @
               [[\<lparr>entry_prop = [''image_info'', ''dimensions'', dim s],
                  old_val = HNumber (dimensions (image_info conf) (dim s)),
                  new_val = HNumber (dimensions (image_info conf2) (dim s)),
                  type = ''number''\<rparr>]])"
proof -
  let ?s1 = "s\<lparr>last_player_start := Some (dimensions (image_info conf) (dim s)),
                  published := published s @
                    [(IMAGE_DIMENSION_PLAY,
                      Dimension_play (conf_id conf) (dim s) forwards False)]\<rparr>"
  let ?p = "?s1\<lparr>player_info :=
               \<lparr>player_dim = Some (dim s), player_forwards = Some forwards,
                player_handle = Some h\<rparr>\<rparr>"
  have start: "playDimension forwards s = Inr ?s1"
    by (rule start_call_eq [OF assms])
  have "image_config ?p = Some conf" using assms(1) by simp
  from play_frames_result [OF this, of vs] obtain d where
    d: "play_frames vs ?p = Inr (?p\<lparr>image_config := Some (conf\<lparr>image_info :=
                   (image_info conf)\<lparr>dimensions := d\<rparr>\<rparr>)\<rparr>)"
    by blast
  let ?conf2 = "conf\<lparr>image_info := (image_info conf)\<lparr>dimensions := d\<rparr>\<rparr>"
  let ?s2 = "?p\<lparr>image_config := Some ?conf2\<rparr>"
  have stop: "history_of (playDimension forwards ?s2) =
             Some (history conf @
               [[\<lparr>entry_prop = [''image_info'', ''dimensions'', dim s],
                  old_val = HNumber (dimensions (image_info conf) (dim s)),
                  new_val = HNumber (dimensions (image_info ?conf2) (dim s)),
                  type = ''number''\<rparr>]])"
    using assms(2) stop_call_eq [of ?s2 ?conf2 forwards]
    by (simp add: history_of_def)
  show ?thesis
    using start d stop by (intro exI [of _ ?s1] exI [of _ ?s2] exI [of _ ?conf2]) simp
qed

subsection \<open>toggleProjection\<close>

lemma toggleProjection_eq:
  assumes "image_config s = Some conf" and "player_handle (player_info s) = None"
  shows "toggleProjection s =
           Inr (s\<lparr>add_projection_history := True,
                  image_config := Some (conf\<lparr>image_info := (image_info conf)\<lparr>
                    projection_opts := (projection_opts (image_info conf))\<lparr>
                      opts_start := dimensions (image_info conf) (dim s),
                      opts_end := dimensions (image_info conf) (''max_'' @ dim s) - 1\<rparr>,
                    projection := (if projection (image_info conf) = NORMAL
                                   then INTMAX else NORMAL)\<rparr>\<rparr>)\<rparr>)"
  using assms by (simp add: toggleProjection_def Let_def)

lemma detached_eq:
  "detached s =
     Inr (s\<lparr>slider := (if elSelector s = None then slider s else None),
            element_shown := False\<rparr>)"
  by (cases "elSelector s"; cases "slider s")
     (simp_all add: detached_def slider_destroy_def)

lemma changeProjection_toggle_values:
  assumes "image_config t = Some c" and "add_projection_history t"
    and "elSelector t = None \<or> slider t \<noteq> None"
  shows "\<exists>t'. changeProjection (Some (a, b)) True t = Inr t' \<and>
           image_config t' = Some (c\<lparr>
             image_info := (image_info c)\<lparr>projection_opts :=
               (projection_opts (image_info c))\<lparr>opts_start := Math_round a,
                                                 opts_end := Math_round b\<rparr>\<rparr>,
             history := history c @ [[toggle_entry NORMAL INTMAX]]\<rparr>) \<and>
           dim t' = dim t \<and> player_info t' = player_info t \<and>
           \<not> add_projection_history t'"
proof (cases "elSelector t")
  case None
  then show ?thesis using assms(1,2)
    by (simp add: changeProjection_def slider_method_def then_do_def Let_def addHistory_def
          publish_def toggle_entry_def)
next
  case (Some sel)
  with assms(3) obtain w where "slider t = Some w" by auto
  then show ?thesis using assms(1,2) Some
    by (simp add: changeProjection_def slider_method_def then_do_def Let_def addHistory_def
          publish_def toggle_entry_def)
qed

lemma changeProjection_toggle_none:
  assumes "image_config t = Some c" and "add_projection_history t"
  shows "\<exists>t'. changeProjection None True t = Inr t' \<and>
           image_config t' = Some (c\<lparr>history := history c @ [[toggle_entry INTMAX NORMAL]]\<rparr>) \<and>
           dim t' = dim t \<and> player_info t' = player_info t \<and>
           \<not> add_projection_history t'"
  using assms
  by (simp add: changeProjection_def then_do_def Let_def addHistory_def publish_def
        toggle_entry_def)

lemma initSlider_toggle_dual:
  assumes "image_config t = Some c" and "add_projection_history t"
    and "dimensions (image_info c) (''max_'' @ dim t) > 1"
    and "dim t = ''z''" and "projection (image_info c) = INTMAX"
  shows "\<exists>t'. initSlider True t = Inr t' \<and>
           image_config t' = Some (c\<lparr>
             image_info := (image_info c)\<lparr>projection_opts :=
               (projection_opts (image_info c))\<lparr>
                  opts_start := Math_round (opts_start (projection_opts (image_info c))),
                  opts_end := Math_round (opts_end (projection_opts (image_info c)))\<rparr>\<rparr>,
             history := history c @ [[toggle_entry NORMAL INTMAX]]\<rparr>) \<and>
           dim t' = dim t \<and> player_info t' = player_info t \<and>
           \<not> add_projection_history t'"
proof -
  let ?options = "\<lparr>opt_orientation = Vertical, opt_min = 0,
                    opt_max = dimensions (image_info c) (''max_'' @ dim t) - 1,
                    opt_step = 1 / 100, opt_value = 0,
                    opt_values = Some (opts_start (projection_opts (image_info c)),
                                       opts_end (projection_opts (image_info c))),
                    opt_change = Change_projection\<rparr>"
  let ?t1 = "(slider_construct ?options t)\<lparr>element_shown := True\<rparr>"
  have init: "initSlider True t =
          changeProjection (Some (opts_start (projection_opts (image_info c)),
                                  opts_end (projection_opts (image_info c)))) True ?t1"
    using assms(1,3,4,5) by (simp add: initSlider_def Let_def)
  have t1: "image_config ?t1 = Some c" "add_projection_history ?t1"
    "elSelector ?t1 = None \<or> slider ?t1 \<noteq> None"
    and same: "dim ?t1 = dim t" "player_info ?t1 = player_info t"
    using assms(1,2) by (simp_all add: slider_construct_def split: option.splits)
  show ?thesis
    unfolding init using changeProjection_toggle_values [OF t1] same by simp
qed

lemma initSlider_toggle_single:
  assumes "image_config t = Some c" and "add_projection_history t"
    and "dimensions (image_info c) (''max_'' @ dim t) > 1"
    and "\<not> (dim t = ''z'' \<and> projection (image_info c) = INTMAX)"
  shows "\<exists>t'. initSlider True t = Inr t' \<and>
           image_config t' = Some (c\<lparr>history := history c @ [[toggle_entry INTMAX NORMAL]]\<rparr>) \<and>
           dim t' = dim t \<and> player_info t' = player_info t \<and>
           \<not> add_projection_history t'"
proof -
  let ?options = "\<lparr>opt_orientation = (if dim t = ''z'' then Vertical else Horizontal),
                    opt_min = 0,
                    opt_max = dimensions (image_info c) (''max_'' @ dim t) - 1,
                    opt_step = 1 / 100, opt_value = dimensions (image_info c) (dim t),
                    opt_values = None,
                    opt_change = Change_dimension\<rparr>"
  let ?t1 = "(slider_construct ?options t)\<lparr>element_shown := True\<rparr>"
  have init: "initSlider True t = changeProjection None True ?t1"
    using assms(1,3,4) by (auto simp add: initSlider_def Let_def)
  have t1: "image_config ?t1 = Some c" "add_projection_history ?t1"
    and same: "dim ?t1 = dim t" "player_info ?t1 = player_info t"
    using assms(1,2) by (simp_all add: slider_construct_def split: option.splits)
  show ?thesis
    unfolding init using changeProjection_toggle_none [OF t1] same by simp
qed

lemma toggle_observed_to_intmax:
  assumes "image_config s = Some conf"
    and "projection (image_info conf) = NORMAL"
    and "player_handle (player_info s) = None"
    and "dimensions (image_info conf) (''max_'' @ dim s) > 1"
  shows "\<exists>s' e opts'. toggle_observed s = Inr s' \<and>
           image_config s' = Some (conf\<lparr>
             image_info := (image_info conf)\<lparr>projection_opts := opts',
                                              projection := INTMAX\<rparr>,
             history := history conf @ [[e]]\<rparr>) \<and>
           (dim s = ''z'' \<longrightarrow> e = toggle_entry NORMAL INTMAX) \<and>
           dim s' = dim s \<and> player_info s' = player_info s"
proof -
  let ?c = "conf\<lparr>image_info := (image_info conf)\<lparr>
              projection_opts := (projection_opts (image_info conf))\<lparr>
                opts_start := dimensions (image_info conf) (dim s),
                opts_end := dimensions (image_info conf) (''max_'' @ dim s) - 1\<rparr>,
              projection := INTMAX\<rparr>\<rparr>"
  let ?s1 = "s\<lparr>add_projection_history := True, image_config := Some ?c\<rparr>"
  let ?t = "?s1\<lparr>slider := (if elSelector s = None then slider s else None),
                 element_shown := False\<rparr>"
  have run: "toggle_observed s = initSlider True ?t"
    using toggleProjection_eq [OF assms(1,3)] assms(2) detached_eq [of ?s1]
    by (simp add: toggle_observed_def projection_observer_def then_do_def)
  have t: "image_config ?t = Some ?c" "add_projection_history ?t"
    "dimensions (image_info ?c) (''max_'' @ dim ?t) > 1"
    using assms(4) by simp_all
  show ?thesis
  proof (cases "dim s = ''z''")
    case True
    then have "dim ?t = ''z''" "projection (image_info ?c) = INTMAX" by simp_all
    from initSlider_toggle_dual [OF t this] obtain t' where
      "initSlider True ?t = Inr t'"
      "image_config t' = Some (?c\<lparr>
             image_info := (image_info ?c)\<lparr>projection_opts :=
               (projection_opts (image_info ?c))\<lparr>
                  opts_start := Math_round (opts_start (projection_opts (image_info ?c))),
                  opts_end := Math_round (opts_end (projection_opts (image_info ?c)))\<rparr>\<rparr>,
             history := history ?c @ [[toggle_entry NORMAL INTMAX]]\<rparr>)"
      "dim t' = dim ?t" "player_info t' = player_info ?t"
      by blast
    then show ?thesis
      unfolding run
      by (intro exI [of _ t'] exI [of _ "toggle_entry NORMAL INTMAX"]
            exI [of _ "(projection_opts (image_info ?c))\<lparr>
                  opts_start := Math_round (opts_start (projection_opts (image_info ?c))),
                  opts_end := Math_round (opts_end (projection_opts (image_info ?c)))\<rparr>"])
         simp
  next
    case False
    then have "\<not> (dim ?t = ''z'' \<and> projection (image_info ?c) = INTMAX)" by simp
    from initSlider_toggle_single [OF t this] obtain t' where
      "initSlider True ?t = Inr t'"
      "image_config t' = Some (?c\<lparr>history := history ?c @ [[toggle_entry INTMAX NORMAL]]\<rparr>)"
      "dim t' = dim ?t" "player_info t' = player_info ?t"
      by blast
    then show ?thesis
      unfolding run using False
      by (intro exI [of _ t'] exI [of _ "toggle_entry INTMAX NORMAL"]
            exI [of _ "projection_opts (image_info ?c)"])
         simp
  qed
qed

lemma toggle_observed_to_normal:
  assumes "image_config s = Some conf"
    and "projection (image_info conf) = INTMAX"
    and "player_handle (player_info s) = None"
    and "dimensions (image_info conf) (''max_'' @ dim s) > 1"
  shows "\<exists>s'. toggle_observed s = Inr s' \<and>
           image_config s' = Some (conf\<lparr>
             image_info := (image_info conf)\<lparr>
               projection_opts := (projection_opts (image_info conf))\<lparr>
                 opts_start := dimensions (image_info conf) (dim s),
                 opts_end := dimensions (image_info conf) (''max_'' @ dim s) - 1\<rparr>,
               projection := NORMAL\<rparr>,
             history := history conf @ [[toggle_entry INTMAX NORMAL]]\<rparr>) \<and>
           dim s' = dim s \<and> player_info s' = player_info s"
proof -
  let ?c = "conf\<lparr>image_info := (image_info conf)\<lparr>
              projection_opts := (projection_opts (image_info conf))\<lparr>
                opts_start := dimensions (image_info conf) (dim s),
                opts_end := dimensions (image_info conf) (''max_'' @ dim s) - 1\<rparr>,
              projection := NORMAL\<rparr>\<rparr>"
  let ?s1 = "s\<lparr>add_projection_history := True, image_config := Some ?c\<rparr>"
  let ?t = "?s1\<lparr>slider := (if elSelector s = None then slider s else None),
                 element_shown := False\<rparr>"
  have run: "toggle_observed s = initSlider True ?t"
    using toggleProjection_eq [OF assms(1,3)] assms(2) detached_eq [of ?s1]
    by (simp add: toggle_observed_def projection_observer_def then_do_def)
  have t: "image_config ?t = Some ?c" "add_projection_history ?t"
    "dimensions (image_info ?c) (''max_'' @ dim ?t) > 1"
    "\<not> (dim ?t = ''z'' \<and> projection (image_info ?c) = INTMAX)"
    using assms(4) by simp_all
  from initSlider_toggle_single [OF t] obtain t' where
    "initSlider True ?t = Inr t'"
    "image_config t' = Some (?c\<lparr>history := history ?c @ [[toggle_entry INTMAX NORMAL]]\<rparr>)"
    "dim t' = dim ?t" "player_info t' = player_info ?t"
    by blast
  then show ?thesis
    unfolding run by (intro exI [of _ t']) simp
qed

text \<open>
  For a dimension of extent 1 or less \<open>initSlider\<close> returns before
  \<open>changeProjection\<close>: the toggle records no history and leaves
  \<open>add_projection_history\<close> set.
\<close>

lemma toggle_observed_degenerate:
  assumes "image_config s = Some conf"
    and "player_handle (player_info s) = None"
    and "dimensions (image_info conf) (''max_'' @ dim s) \<le> 1"
  shows "\<exists>s'. toggle_observed s = Inr s' \<and> history_of (Inr s') = Some (history conf) \<and>
           add_projection_history s'"
proof -
  let ?c = "conf\<lparr>image_info := (image_info conf)\<lparr>
              projection_opts := (projection_opts (image_info conf))\<lparr>
                opts_start := dimensions (image_info conf) (dim s),
                opts_end := dimensions (image_info conf) (''max_'' @ dim s) - 1\<rparr>,
              projection := (if projection (image_info conf) = NORMAL
                             then INTMAX else NORMAL)\<rparr>\<rparr>"
  let ?s1 = "s\<lparr>add_projection_history := True, image_config := Some ?c\<rparr>"
  let ?t = "?s1\<lparr>slider := (if elSelector s = None then slider s else None),
                 element_shown := False\<rparr>"
  have run: "toggle_observed s = initSlider True ?t"
    using toggleProjection_eq [OF assms(1,2)] detached_eq [of ?s1]
    by (simp add: toggle_observed_def projection_observer_def then_do_def)
  have "initSlider True ?t = Inr ?t"
    using assms(3) by (simp add: initSlider_def)
  then show ?thesis
    unfolding run by (simp add: history_of_def)
qed

text \<open>
  C1, as amended. From projection mode NORMAL, with no playback running and a dimension
  of extent above 1, two toggles, each followed by the projection observer, bring the
  projection mode back to NORMAL and append exactly two history records of one entry
  each, one per toggle. \<open>projection_opts\<close> is not brought back: it is left at
  \<open>start = dimensions[dim]\<close> and \<open>end = dimensions['max_' + dim] - 1\<close>, the
  values \<open>toggleProjection\<close> seeds.
\<close>

theorem toggle_twice:
  assumes "image_config s = Some conf"
    and "projection (image_info conf) = NORMAL"
    and "player_handle (player_info s) = None"
    and "dimensions (image_info conf) (''max_'' @ dim s) > 1"
  shows "\<exists>s' e1 e2.
           then_do (toggle_observed s) toggle_observed = Inr s' \<and>
           image_config s' = Some (conf\<lparr>
             image_info := (image_info conf)\<lparr>projection_opts :=
               (projection_opts (image_info conf))\<lparr>
                 opts_start := dimensions (image_info conf) (dim s),
                 opts_end := dimensions (image_info conf) (''max_'' @ dim s) - 1\<rparr>\<rparr>,
             history := history conf @ [[e1], [e2]]\<rparr>) \<and>
           e2 = toggle_entry INTMAX NORMAL \<and>
           (dim s = ''z'' \<longrightarrow> e1 = toggle_entry NORMAL INTMAX)"
proof -
  from toggle_observed_to_intmax [OF assms] obtain s1 e1 opts1 where
    s1: "toggle_observed s = Inr s1"
    and c1: "image_config s1 = Some (conf\<lparr>
             image_info := (image_info conf)\<lparr>projection_opts := opts1,
                                              projection := INTMAX\<rparr>,
             history := history conf @ [[e1]]\<rparr>)"
    and e1: "dim s = ''z'' \<longrightarrow> e1 = toggle_entry NORMAL INTMAX"
    and same1: "dim s1 = dim s" "player_info s1 = player_info s"
    by blast
  let ?c1 = "conf\<lparr>image_info := (image_info conf)\<lparr>projection_opts := opts1,
                                              projection := INTMAX\<rparr>,
             history := history conf @ [[e1]]\<rparr>"
  have pre: "projection (image_info ?c1) = INTMAX"
    "player_handle (player_info s1) = None"
    "dimensions (image_info ?c1) (''max_'' @ dim s1) > 1"
    using assms(3,4) same1 by simp_all
  from toggle_observed_to_normal [OF c1 pre] obtain s2 where
    s2: "toggle_observed s1 = Inr s2"
    and c2: "image_config s2 = Some (?c1\<lparr>
             image_info := (image_info ?c1)\<lparr>
               projection_opts := (projection_opts (image_info ?c1))\<lparr>
                 opts_start := dimensions (image_info ?c1) (dim s1),
                 opts_end := dimensions (image_info ?c1) (''max_'' @ dim s1) - 1\<rparr>,
               projection := NORMAL\<rparr>,
             history := history ?c1 @ [[toggle_entry INTMAX NORMAL]]\<rparr>)"
    by blast
  have run: "then_do (toggle_observed s) toggle_observed = Inr s2"
    using s1 s2 by (simp add: then_do_def)
  have restored: "(image_info conf)\<lparr>projection_opts := x, projection := NORMAL\<rparr> =
                  (image_info conf)\<lparr>projection_opts := x\<rparr>" for x
    using assms(2) by (cases "image_info conf") simp
  have opts: "opts1\<lparr>opts_start := a, opts_end := b\<rparr> =
              (projection_opts (image_info conf))\<lparr>opts_start := a, opts_end := b\<rparr>" for a b
    by simp
  have "image_config s2 = Some (conf\<lparr>
             image_info := (image_info conf)\<lparr>projection_opts :=
               (projection_opts (image_info conf))\<lparr>
                 opts_start := dimensions (image_info conf) (dim s),
                 opts_end := dimensions (image_info conf) (''max_'' @ dim s) - 1\<rparr>\<rparr>,
             history := history conf @ [[e1], [toggle_entry INTMAX NORMAL]]\<rparr>)"
    using c2 same1 restored opts by simp
  with run e1 show ?thesis by blast
qed

text \<open>
  C1, as stated, fails: on the example slider \<open>projection_opts\<close> is
  \<open>{start: 5, end: 7}\<close> before the two toggles and \<open>{start: 3, end: 9}\<close>
  after them.
\<close>

theorem toggle_twice_opts_counterexample:
  "projection_opts_of (then_do (toggle_observed ex_slider) toggle_observed) =
     Some \<lparr>opts_start = 3, opts_end = 9\<rparr> \<and>
   projection_opts_of (Inr ex_slider) = Some \<lparr>opts_start = 5, opts_end = 7\<rparr>"
  by (simp add: toggle_observed_def toggleProjection_def projection_observer_def
        detached_def slider_destroy_def initSlider_def changeProjection_def slider_method_def
        slider_construct_def then_do_def Let_def addHistory_def publish_def projection_opts_of_def
        ex_slider_def ex_conf_def ex_info_def)

theorem toggle_twice_witness:
  "history_of (then_do (toggle_observed ex_slider) toggle_observed) =
     Some [[toggle_entry NORMAL INTMAX], [toggle_entry INTMAX NORMAL]]"
  using toggle_twice [of ex_slider ex_conf]
  by (auto simp add: history_of_def ex_slider_def ex_conf_def ex_info_def)

subsection \<open>Dual-handle slides\<close>

lemma slide_lower_past_upper:
  "hi < v \<Longrightarrow> slide keyCode v (Some (v, hi)) s = Inr (False, s)"
  by (simp add: slide_def handles_crossed_def)

lemma slide_upper_past_lower:
  "v < lo \<Longrightarrow> slide keyCode v (Some (lo, v)) s = Inr (False, s)"
  by (simp add: slide_def handles_crossed_def)

lemma slide_dual_accepts_ordered:
  "slide keyCode v (Some (a, b)) s = Inr (True, s') \<Longrightarrow> (v = a \<or> v = b) \<Longrightarrow> a < b"
  by (auto simp add: slide_def handles_crossed_def then_do_def Let_def
           split: if_splits option.splits sum.splits)

lemma slide_keeps:
  "slide keyCode v vs s = Inr (allowed, s') \<Longrightarrow>
   image_config s' = image_config s \<and> elSelector s' = elSelector s \<and>
   (\<exists>w'. slider s = Some w \<longrightarrow>
      slider s' = Some w' \<and> opt_values w' = opt_values w \<and> opt_change w' = opt_change w)"
  by (auto simp add: slide_def slider_method_def then_do_def Let_def
           split: if_splits option.splits sum.splits)

lemma slide_returns: "slider s \<noteq> None \<Longrightarrow> \<exists>allowed s'. slide keyCode v vs s = Inr (allowed, s')"
  by (auto simp add: slide_def slider_method_def then_do_def Let_def
           split: if_splits option.splits sum.splits)

lemma slide_interaction_ordered:
  assumes "slider s = Some w" and "opt_values w = Some (lo, hi)" and "lo \<le> hi"
  shows "\<exists>s' w' lo' hi'. slide_interaction index v keyCode s = Inr s' \<and>
           slider s' = Some w' \<and> opt_values w' = Some (lo', hi') \<and> lo' \<le> hi' \<and>
           opt_change w' = opt_change w \<and> image_config s' = image_config s"
proof (cases "v = (if index = 0 then lo else hi)")
  case True
  then show ?thesis using assms by (simp add: slide_interaction_def)
next
  case False
  let ?new = "if index = 0 then (v, hi) else (lo, v)"
  from slide_returns [of s keyCode v "Some ?new"] assms(1) obtain allowed s1 where
    sl: "slide keyCode v (Some ?new) s = Inr (allowed, s1)" by auto
  from slide_keeps [OF sl, of w] assms(1,2) obtain w1 where
    k: "image_config s1 = image_config s" "elSelector s1 = elSelector s"
       "slider s1 = Some w1" "opt_values w1 = Some (lo, hi)" "opt_change w1 = opt_change w"
    by auto
  have run: "slide_interaction index v keyCode s =
        (if \<not> allowed then Inr s1
         else slider_method (\<lambda>w1. w1\<lparr>opt_values := Some ?new\<rparr>) s1)"
    using assms(1,2) False sl by (simp add: slide_interaction_def then_do_def Let_def)
  show ?thesis
  proof (cases allowed)
    case False
    then show ?thesis using run k assms(3) by simp
  next
    case True
    have ord: "fst ?new < snd ?new"
      using slide_dual_accepts_ordered [of keyCode v "fst ?new" "snd ?new" s s1] sl True
      by (simp split: if_splits)
    show ?thesis
    proof (cases "elSelector s")
      case None
      then show ?thesis using run k assms(3) True by (simp add: slider_method_def)
    next
      case (Some sel)
      then show ?thesis using run k ord True
        by (cases "index = 0") (simp_all add: slider_method_def)
    qed
  qed
qed

lemma slide_interaction_crossing:
  assumes "slider s = Some w" and "opt_values w = Some (lo, hi)"
  shows "hi < v \<Longrightarrow> slide_interaction 0 v keyCode s = Inr s"
    and "v < lo \<Longrightarrow> slide_interaction (Suc n) v keyCode s = Inr s"
  using assms
  by (auto simp add: slide_interaction_def slide_lower_past_upper slide_upper_past_lower
        then_do_def Let_def)

lemma change_projection_ordered:
  assumes "image_config s = Some conf" and "slider s = Some w"
    and "opt_change w = Change_projection" and "opt_values w = Some (lo, hi)" and "lo \<le> hi"
  shows "\<exists>s' conf' w' lo' hi'. change True ui_value (opt_values w) s = Inr s' \<and>
           image_config s' = Some conf' \<and>
           opts_start (projection_opts (image_info conf')) = Math_round lo \<and>
           opts_end (projection_opts (image_info conf')) = Math_round hi \<and>
           Math_round lo \<le> Math_round hi \<and>
           slider s' = Some w' \<and> opt_values w' = Some (lo', hi') \<and> lo' \<le> hi'"
  using assms Math_round_mono [of lo hi]
  by (cases "elSelector s")
     (simp_all add: change_def changeProjection_def slider_method_def
        then_do_def Let_def addHistory_def publish_def)

text \<open>
  C2. With the two handles at \<open>lo \<le> hi\<close>, a slide that proposes a value above
  \<open>hi\<close> for the lower handle, or a value below \<open>lo\<close> for the upper one, makes
  the \<open>slide\<close> callback return false with the state as it was, so the widget
  keeps its values. After any slide interaction the widget's values are still ordered,
  \<open>projection_opts\<close> is untouched, and the \<open>change\<close> callback that follows
  writes a \<open>projection_opts\<close> with \<open>start \<le> end\<close>.
\<close>

theorem dual_handle_slide:
  assumes "image_config s = Some conf" and "slider s = Some w"
    and "opt_values w = Some (lo, hi)" and "opt_change w = Change_projection"
    and "lo \<le> hi"
  shows "(\<forall>v keyCode. hi < v \<longrightarrow>
            slide keyCode v (Some (v, hi)) s = Inr (False, s) \<and>
            slide_interaction 0 v keyCode s = Inr s) \<and>
         (\<forall>v keyCode. v < lo \<longrightarrow>
            slide keyCode v (Some (lo, v)) s = Inr (False, s) \<and>
            slide_interaction 1 v keyCode s = Inr s) \<and>
         (\<forall>index v keyCode. \<exists>s1 w1 lo1 hi1.
            slide_interaction index v keyCode s = Inr s1 \<and>
            image_config s1 = Some conf \<and>
            slider s1 = Some w1 \<and> opt_values w1 = Some (lo1, hi1) \<and> lo1 \<le> hi1 \<and>
            (\<exists>s2 conf2 w2 lo2 hi2.
               change True (opt_value w1) (opt_values w1) s1 = Inr s2 \<and>
               image_config s2 = Some conf2 \<and>
               opts_start (projection_opts (image_info conf2)) \<le>
                 opts_end (projection_opts (image_info conf2)) \<and>
               slider s2 = Some w2 \<and> opt_values w2 = Some (lo2, hi2) \<and> lo2 \<le> hi2))"
proof (intro conjI allI impI)
  fix v keyCode assume "hi < v"
  then show "slide keyCode v (Some (v, hi)) s = Inr (False, s)"
    by (rule slide_lower_past_upper)
  show "slide_interaction 0 v keyCode s = Inr s"
    using slide_interaction_crossing(1) [OF assms(2,3) \<open>hi < v\<close>] .
next
  fix v keyCode assume "v < lo"
  then show "slide keyCode v (Some (lo, v)) s = Inr (False, s)"
    by (rule slide_upper_past_lower)
  show "slide_interaction 1 v keyCode s = Inr s"
    using slide_interaction_crossing(2) [OF assms(2,3) \<open>v < lo\<close>, of 0] by simp
next
  fix index v keyCode
  from slide_interaction_ordered [OF assms(2,3,5), of index v keyCode]
  obtain s1 w1 lo1 hi1 where
    s1: "slide_interaction index v keyCode s = Inr s1" "slider s1 = Some w1"
      "opt_values w1 = Some (lo1, hi1)" "lo1 \<le> hi1" "opt_change w1 = opt_change w"
      "image_config s1 = image_config s"
    by blast
  have c1: "image_config s1 = Some conf" "opt_change w1 = Change_projection"
    using s1 assms(1,4) by simp_all
  from change_projection_ordered [OF c1(1) s1(2) c1(2) s1(3,4), of "opt_value w1"]
  obtain s2 conf2 w2 lo2 hi2 where
    "change True (opt_value w1) (opt_values w1) s1 = Inr s2" "image_config s2 = Some conf2"
    "opts_start (projection_opts (image_info conf2)) \<le>
       opts_end (projection_opts (image_info conf2))"
    "slider s2 = Some w2" "opt_values w2 = Some (lo2, hi2)" "lo2 \<le> hi2"
    by auto
  with s1 c1 show "\<exists>s1 w1 lo1 hi1.
            slide_interaction index v keyCode s = Inr s1 \<and>
            image_config s1 = Some conf \<and>
            slider s1 = Some w1 \<and> opt_values w1 = Some (lo1, hi1) \<and> lo1 \<le> hi1 \<and>
            (\<exists>s2 conf2 w2 lo2 hi2.
               change True (opt_value w1) (opt_values w1) s1 = Inr s2 \<and>
               image_config s2 = Some conf2 \<and>
               opts_start (projection_opts (image_info conf2)) \<le>
                 opts_end (projection_opts (image_info conf2)) \<and>
               slider s2 = Some w2 \<and> opt_values w2 = Some (lo2, hi2) \<and> lo2 \<le> hi2)"
    by blast
qed

theorem dual_handle_slide_witness:
  "slide None 8 (Some (8, 7)) ex_dual = Inr (False, ex_dual) \<and>
   slide None 4 (Some (5, 4)) ex_dual = Inr (False, ex_dual) \<and>
   slide_interaction 0 8 None ex_dual = Inr ex_dual \<and>
   slide_interaction 1 4 None ex_dual = Inr ex_dual"
  using dual_handle_slide [of ex_dual ex_intmax_conf ex_dual_widget 5 7]
  by (simp add: ex_dual_def ex_dual_widget_def ex_intmax_def ex_slider_def)

text \<open>A proposal that keeps the handles apart is accepted and applied.\<close>

lemma slide_interaction_accepts:
  "slide_interaction 0 6 None ex_dual =
     Inr (ex_dual\<lparr>slider := Some (ex_dual_widget\<lparr>opt_values := Some (6, 7)\<rparr>),
                 slider_value_shown := True\<rparr>)"
  by (simp add: slide_interaction_def slide_def handles_crossed_def slider_method_def
        then_do_def ex_dual_def ex_dual_widget_def ex_intmax_def ex_slider_def)

subsection \<open>Keyboard slides\<close>

lemma ceil_301_100: "Math_ceil (301 / 100) = 4"
  unfolding Math_ceil_def by code_simp

lemma round_301_100: "Math_round (301 / 100) = 3"
  unfolding Math_round_def by code_simp

lemma floor_299_100: "Math_floor (299 / 100) = 2"
  unfolding Math_floor_def by code_simp

lemma Math_ceil_bounds: "Math_ceil v \<in> \<int> \<and> v \<le> Math_ceil v \<and> Math_ceil v < v + 1"
  unfolding Math_ceil_def by (intro conjI) (simp, linarith+)

lemma Math_floor_bounds: "Math_floor v \<in> \<int> \<and> Math_floor v \<le> v \<and> v < Math_floor v + 1"
  unfolding Math_floor_def by (intro conjI) (simp, linarith+)

lemma slide_key_up:
  assumes "player_handle (player_info s) = None"
    and "elSelector s = Some sel" and "slider s = Some w"
    and "k = 38 \<or> k = 39"
  shows "slide (Some k) v None s =
           Inr (False, s\<lparr>slider := Some (w\<lparr>opt_value := Math_ceil v\<rparr>)\<rparr>)"
  using assms
  by (simp add: slide_def handles_crossed_def slider_method_def then_do_def Let_def)

lemma slide_key_down:
  assumes "player_handle (player_info s) = None"
    and "elSelector s = Some sel" and "slider s = Some w"
    and "k = 37 \<or> k = 40"
  shows "slide (Some k) v None s =
           Inr (False, s\<lparr>slider := Some (w\<lparr>opt_value := Math_floor v\<rparr>)\<rparr>)"
proof -
  have "\<not> (k = 38 \<or> k = 39)" using assms(4) by presburger
  then show ?thesis
    using assms
    by (simp add: slide_def handles_crossed_def slider_method_def then_do_def Let_def)
qed

lemma slide_interaction_rejected:
  assumes "slider s = Some w" and "opt_values w = None" and "v \<noteq> opt_value w"
    and "slide keyCode v None s = Inr (False, s1)"
  shows "slide_interaction index v keyCode s = Inr s1"
  using assms by (simp add: slide_interaction_def then_do_def)

text \<open>
  C8, as amended. On the single-handle widget, with no playback running, an arrow-key
  slide sets the control value to the ceiling of the proposed value for the keys 38 and
  39 (up, right) and to its floor for the keys 37 and 40 (left, down), and returns
  false, so that the widget keeps the value the callback has set: the control lands on
  the whole step in the direction of the key, which is not always the nearest integer.
\<close>

theorem slide_arrow_key:
  assumes "player_handle (player_info s) = None"
    and "elSelector s = Some sel" and "slider s = Some w"
    and "opt_values w = None"
  shows "(k = 38 \<or> k = 39 \<longrightarrow>
            slide (Some k) v None s =
              Inr (False, s\<lparr>slider := Some (w\<lparr>opt_value := Math_ceil v\<rparr>)\<rparr>) \<and>
            (v \<noteq> opt_value w \<longrightarrow>
               slide_interaction index v (Some k) s =
                 Inr (s\<lparr>slider := Some (w\<lparr>opt_value := Math_ceil v\<rparr>)\<rparr>))) \<and>
         (k = 37 \<or> k = 40 \<longrightarrow>
            slide (Some k) v None s =
              Inr (False, s\<lparr>slider := Some (w\<lparr>opt_value := Math_floor v\<rparr>)\<rparr>) \<and>
            (v \<noteq> opt_value w \<longrightarrow>
               slide_interaction index v (Some k) s =
                 Inr (s\<lparr>slider := Some (w\<lparr>opt_value := Math_floor v\<rparr>)\<rparr>))) \<and>
         Math_ceil v \<in> \<int> \<and> v \<le> Math_ceil v \<and> Math_ceil v < v + 1 \<and>
         Math_floor v \<in> \<int> \<and> Math_floor v \<le> v \<and> v < Math_floor v + 1"
proof -
  have ceil_applied: "slide (Some k) v None s =
          Inr (False, s\<lparr>slider := Some (w\<lparr>opt_value := Math_ceil v\<rparr>)\<rparr>)"
    if "k = 38 \<or> k = 39"
    by (rule slide_key_up [OF assms(1,2,3) that])
  have floor_applied: "slide (Some k) v None s =
          Inr (False, s\<lparr>slider := Some (w\<lparr>opt_value := Math_floor v\<rparr>)\<rparr>)"
    if "k = 37 \<or> k = 40"
    by (rule slide_key_down [OF assms(1,2,3) that])
  have ceil_kept: "slide_interaction index v (Some k) s =
          Inr (s\<lparr>slider := Some (w\<lparr>opt_value := Math_ceil v\<rparr>)\<rparr>)"
    if "k = 38 \<or> k = 39" and "v \<noteq> opt_value w"
    by (rule slide_interaction_rejected [OF assms(3,4) that(2) ceil_applied [OF that(1)]])
  have floor_kept: "slide_interaction index v (Some k) s =
          Inr (s\<lparr>slider := Some (w\<lparr>opt_value := Math_floor v\<rparr>)\<rparr>)"
    if "k = 37 \<or> k = 40" and "v \<noteq> opt_value w"
    by (rule slide_interaction_rejected [OF assms(3,4) that(2) floor_applied [OF that(1)]])
  show ?thesis
  proof (intro conjI impI)
    show "Math_ceil v \<in> \<int>" "v \<le> Math_ceil v" "Math_ceil v < v + 1"
      using Math_ceil_bounds [of v] by simp_all
    show "Math_floor v \<in> \<int>" "Math_floor v \<le> v" "v < Math_floor v + 1"
      using Math_floor_bounds [of v] by simp_all
  qed (fact ceil_applied floor_applied ceil_kept floor_kept)+
qed

theorem slide_arrow_key_witness:
  "slid_value (slide (Some 39) (301 / 100) None ex_shown) = Some 4 \<and>
   slid_value (slide (Some 37) (299 / 100) None ex_shown) = Some 2 \<and>
   slide_interaction 0 (301 / 100) (Some 39) ex_shown =
     Inr (ex_shown\<lparr>slider := Some (ex_widget\<lparr>opt_value := 4\<rparr>)\<rparr>)"
  using slide_arrow_key [of ex_shown "''#1''" ex_widget 39 "301 / 100" 0]
        slide_arrow_key [of ex_shown "''#1''" ex_widget 37 "299 / 100" 0]
  by (simp add: slid_value_def ex_shown_def ex_slider_def ex_widget_def
        ceil_301_100 floor_299_100)

text \<open>
  On the dual-handle widget the same branch sets the \<open>value\<close> option and returns
  false: the two handles stay where they are.
\<close>

lemma dual_arrow_key_example:
  "slide_interaction 0 (501 / 100) (Some 38) ex_dual =
     Inr (ex_dual\<lparr>slider := Some (ex_dual_widget\<lparr>opt_value := 6\<rparr>)\<rparr>)"
proof -
  have "Math_ceil (501 / 100) = 6"
    unfolding Math_ceil_def by code_simp
  then show ?thesis
    by (simp add: slide_interaction_def slide_def handles_crossed_def slider_method_def
          then_do_def ex_dual_def ex_dual_widget_def ex_intmax_def ex_slider_def)
qed

text \<open>
  C8, as stated, fails: the right-arrow key at the proposed value 3.01 sets the control
  to 4, while the nearest integer is 3.
\<close>

theorem slide_arrow_key_nearest_counterexample:
  "slid_value (slide (Some 39) (301 / 100) None ex_shown) = Some 4 \<and>
   Math_round (301 / 100) = 3"
  by (simp add: slide_def handles_crossed_def slider_method_def then_do_def slid_value_def
        ex_shown_def ex_slider_def ex_widget_def ceil_301_100 round_301_100)

subsection \<open>Teardown\<close>

lemma registerObservers_example: "registerObservers ex_slider = Inr ex_registered"
  by (simp add: registerObservers_def push_observer_def subscribe_def ex_registered_def
        ex_slider_def)

lemma dispose_not_live: "h \<notin> fst ` set (subscriptions (dispose h e))"
  by (auto simp add: dispose_def)

lemma dispose_subset: "set (subscriptions (dispose h e)) \<subseteq> set (subscriptions e)"
  by (auto simp add: dispose_def)

lemma dispose_all_subset:
  "set (subscriptions (foldl (\<lambda>e h. dispose h e) e hs)) \<subseteq> set (subscriptions e)"
proof (induction hs arbitrary: e)
  case Nil
  show ?case by simp
next
  case (Cons h hs)
  have "set (subscriptions (foldl (\<lambda>e h. dispose h e) (dispose h e) hs))
          \<subseteq> set (subscriptions (dispose h e))"
    by (rule Cons.IH)
  also have "\<dots> \<subseteq> set (subscriptions e)" by (rule dispose_subset)
  finally show ?case by simp
qed

lemma dispose_all_not_live:
  "h \<in> set hs \<Longrightarrow> h \<notin> fst ` set (subscriptions (foldl (\<lambda>e h. dispose h e) e hs))"
proof (induction hs arbitrary: e)
  case Nil
  then show ?case by simp
next
  case (Cons a hs)
  show ?case
  proof (cases "h = a")
    case True
    have "h \<notin> fst ` set (subscriptions (dispose h e))" by (rule dispose_not_live)
    moreover have "set (subscriptions (foldl (\<lambda>e h. dispose h e) (dispose h e) hs))
                     \<subseteq> set (subscriptions (dispose h e))"
      by (rule dispose_all_subset)
    ultimately show ?thesis using True by auto
  next
    case False
    with Cons.prems have "h \<in> set hs" by simp
    then show ?thesis using Cons.IH by simp
  qed
qed

lemma unregisterObservers_eq:
  "unregisterObservers s =
     Inr (s\<lparr>bindingEngine :=
              (case image_info_ready_observer s of
                 None \<Rightarrow> foldl (\<lambda>e h. dispose h e) (bindingEngine s) (observers s)
               | Some h \<Rightarrow> dispose h (foldl (\<lambda>e h. dispose h e) (bindingEngine s) (observers s))),
            observers := [], image_info_ready_observer := None\<rparr>)"
  by (cases "image_info_ready_observer s") (simp_all add: unregisterObservers_def Let_def)

lemma unregisterObservers_disposes:
  assumes "unregisterObservers s = Inr s'"
    and "h \<in> set (observers s) \<or> image_info_ready_observer s = Some h"
  shows "h \<notin> fst ` set (subscriptions (bindingEngine s'))"
proof (cases "image_info_ready_observer s")
  case None
  then have "bindingEngine s' = foldl (\<lambda>e h. dispose h e) (bindingEngine s) (observers s)"
    using assms(1) unregisterObservers_eq [of s] by auto
  then show ?thesis using assms(2) None dispose_all_not_live by simp
next
  case (Some r)
  then have e: "bindingEngine s' =
      dispose r (foldl (\<lambda>e h. dispose h e) (bindingEngine s) (observers s))"
    using assms(1) unregisterObservers_eq [of s] by auto
  show ?thesis
  proof (cases "h = r")
    case True
    then show ?thesis using e dispose_not_live by simp
  next
    case False
    with assms(2) Some have "h \<in> set (observers s)" by simp
    then have "h \<notin> fst ` set (subscriptions
        (foldl (\<lambda>e h. dispose h e) (bindingEngine s) (observers s)))"
      by (rule dispose_all_not_live)
    then show ?thesis using e dispose_subset by fastforce
  qed
qed

text \<open>
  C9. \<open>detached\<close> returns normally in every state, also when no widget was
  constructed and \<open>destroy\<close> raises. \<open>unregisterObservers\<close> and \<open>unbind\<close>
  return normally too, dispose every handle of \<open>observers\<close> and the ready
  observer, and leave \<open>observers\<close> empty; with nothing registered
  \<open>unregisterObservers\<close> changes nothing.
\<close>

theorem teardown_safe:
  "(\<exists>s'. detached s = Inr s' \<and> \<not> element_shown s') \<and>
   (slider s = None \<longrightarrow> detached s = Inr (s\<lparr>element_shown := False\<rparr>)) \<and>
   (\<exists>s'. unregisterObservers s = Inr s' \<and> observers s' = [] \<and>
          image_info_ready_observer s' = None \<and>
          (\<forall>h \<in> set (observers s) \<union> set_option (image_info_ready_observer s).
             h \<notin> fst ` set (subscriptions (bindingEngine s')))) \<and>
   (\<exists>s'. unbind s = Inr s' \<and> observers s' = [] \<and> image_config s' = None \<and>
          (\<forall>h \<in> set (observers s) \<union> set_option (image_info_ready_observer s).
             h \<notin> fst ` set (subscriptions (bindingEngine s')))) \<and>
   (observers s = [] \<and> image_info_ready_observer s = None \<longrightarrow>
      unregisterObservers s = Inr s)"
proof (intro conjI impI)
  show "\<exists>s'. detached s = Inr s' \<and> \<not> element_shown s'"
    by (simp add: detached_eq)
  show "detached s = Inr (s\<lparr>element_shown := False\<rparr>)" if "slider s = None"
    using that by (simp add: detached_eq)
  obtain s' where s': "unregisterObservers s = Inr s'" "observers s' = []"
    "image_info_ready_observer s' = None"
    using unregisterObservers_eq [of s] by simp
  have live: "\<forall>h \<in> set (observers s) \<union> set_option (image_info_ready_observer s).
             h \<notin> fst ` set (subscriptions (bindingEngine s'))"
    using unregisterObservers_disposes [OF s'(1)] by auto
  show "\<exists>s'. unregisterObservers s = Inr s' \<and> observers s' = [] \<and>
          image_info_ready_observer s' = None \<and>
          (\<forall>h \<in> set (observers s) \<union> set_option (image_info_ready_observer s).
             h \<notin> fst ` set (subscriptions (bindingEngine s')))"
    using s' live by blast
  have "unbind s = Inr (s'\<lparr>image_config := None\<rparr>)"
    using s'(1) by (simp add: unbind_def then_do_def)
  then show "\<exists>s'. unbind s = Inr s' \<and> observers s' = [] \<and> image_config s' = None \<and>
          (\<forall>h \<in> set (observers s) \<union> set_option (image_info_ready_observer s).
             h \<notin> fst ` set (subscriptions (bindingEngine s')))"
    using s' live by simp
  show "unregisterObservers s = Inr s"
    if "observers s = [] \<and> image_info_ready_observer s = None"
    using that by (simp add: unregisterObservers_def)
qed

theorem teardown_safe_witness:
  "detached ex_slider = Inr ex_slider \<and>
   unregisterObservers ex_registered =
     Inr (ex_slider\<lparr>bindingEngine := \<lparr>subscriptions = [], next_handle = 3\<rparr>\<rparr>) \<and>
   unregisterObservers ex_slider = Inr ex_slider"
  using teardown_safe [of ex_slider] teardown_safe [of ex_registered]
  by (simp add: detached_eq unregisterObservers_def dispose_def ex_registered_def ex_slider_def)

subsection \<open>The initial channel mode\<close>

lemma needs_fold:
  "foldl (\<lambda>needs c. if P c then True else needs) b cs = (b \<or> (\<exists>c \<in> set cs. P c))"
  by (induction cs arbitrary: b) auto

lemma cs_push_observer_image_info:
  "cs_image_info (cs_push_observer p s) = cs_image_info s"
  by (simp add: cs_push_observer_def split_def Let_def)

lemma foldl_keeps:
  "(\<And>s x. f (g s x) = f s) \<Longrightarrow> f (foldl g s xs) = f s"
  by (induction xs arbitrary: s) simp_all

lemma cs_registerObservers_image_info:
  "cs_image_info (cs_registerObservers s) = cs_image_info s"
  by (simp add: cs_registerObservers_def cs_unregisterObservers_def foldl_keeps
        cs_push_observer_image_info split: option.splits)

lemma mode_set_mode: "mode (set_mode v s) = v"
  by (simp add: set_mode_def)

text \<open>
  C6. With \<open>image_info\<close> set and its channels an array, \<open>bind\<close> returns
  normally with the mode FULL_RANGE when some channel has \<open>window.start\<close> below
  \<open>window.min\<close> or \<open>window.end\<close> above \<open>window.max\<close>, and MIN_MAX
  otherwise: MIN_MAX when every window is [5, 250] in [0, 255], FULL_RANGE when one is
  [-10, 300] in [0, 255].
\<close>

theorem cs_bind_initial_mode:
  assumes "cs_image_info s = Some info" and "channels info = Some cs"
  shows "\<exists>s'. cs_bind s = Inr s' \<and>
           mode s' = Some (if \<exists>c \<in> set cs. win_start (window c) < win_min (window c) \<or>
                                            win_end (window c) > win_max (window c)
                           then FULL_RANGE else MIN_MAX) \<and>
           ((\<forall>c \<in> set cs. window c =
               \<lparr>win_start = 5, win_end = 250, win_min = 0, win_max = 255\<rparr>)
              \<longrightarrow> mode s' = Some MIN_MAX) \<and>
           ((\<exists>c \<in> set cs. window c =
               \<lparr>win_start = - 10, win_end = 300, win_min = 0, win_max = 255\<rparr>)
              \<longrightarrow> mode s' = Some FULL_RANGE)"
proof -
  let ?P = "\<lambda>c. win_start (window c) < win_min (window c) \<or>
                 win_end (window c) > win_max (window c)"
  let ?s2 = "(cs_registerObservers (cs_subscribe s))\<lparr>mode_click_handler := True\<rparr>"
  have info: "cs_image_info ?s2 = Some info"
    using assms(1) by (simp add: cs_registerObservers_image_info cs_subscribe_def)
  have eq: "cs_bind s =
      Inr (set_mode (Some (if \<exists>c \<in> set cs. ?P c then FULL_RANGE else MIN_MAX)) ?s2)"
    using info assms(2) by (simp add: cs_bind_def Let_def needs_fold)
  show ?thesis
    unfolding eq by (auto simp add: mode_set_mode)
qed

theorem cs_bind_initial_mode_witness:
  "mode_of (cs_bind (ex_settings [ex_channel 5 250, ex_channel 5 250])) = Some MIN_MAX \<and>
   mode_of (cs_bind (ex_settings [ex_channel 5 250, ex_channel (- 10) 300])) = Some FULL_RANGE"
  using cs_bind_initial_mode [of "ex_settings [ex_channel 5 250, ex_channel 5 250]"
          "ex_info\<lparr>channels := Some [ex_channel 5 250, ex_channel 5 250]\<rparr>"
          "[ex_channel 5 250, ex_channel 5 250]"]
        cs_bind_initial_mode [of "ex_settings [ex_channel 5 250, ex_channel (- 10) 300]"
          "ex_info\<lparr>channels := Some [ex_channel 5 250, ex_channel (- 10) 300]\<rparr>"
          "[ex_channel 5 250, ex_channel (- 10) 300]"]
  by (auto simp add: mode_of_def ex_settings_def ex_channel_def)

subsection \<open>Reselecting the mode\<close>

lemma js_strict_equal_NaN: "js_strict_equal a NaN = False"
  by (cases a) simp_all

text \<open>
  C7. \<open>onModeChange\<close> returns the state it was given when the argument is not a
  number, is below 0 or above 2, or is not the current mode (NaN never is). For a number
  in [0, 2] that is the current mode it sets the mode to null, which notifies the
  observers of the mode once, and queues one callback; when that callback runs on a
  later tick the mode is the same number again and the observers are notified of it
  once.
\<close>

theorem onModeChange_reset:
  "((\<forall>n. m \<noteq> JNumber n) \<longrightarrow> onModeChange m s = s) \<and>
   (\<forall>n. m = JNumber n \<and> (js_less n (Num 0) \<or> js_less (Num 2) n) \<longrightarrow> onModeChange m s = s) \<and>
   (\<forall>n. m = JNumber n \<and> mode s \<noteq> Some n \<longrightarrow> onModeChange m s = s) \<and>
   (m = JNumber NaN \<longrightarrow> onModeChange m s = s) \<and>
   (\<forall>r. m = JNumber (Num r) \<and> 0 \<le> r \<and> r \<le> 2 \<and> mode s = Some (Num r) \<longrightarrow>
      onModeChange m s =
        s\<lparr>mode := None, mode_notifications := mode_notifications s @ [None],
          timeouts := timeouts s @ [Num r]\<rparr> \<and>
      (timeouts s = [] \<longrightarrow>
         run_timeout (onModeChange m s) =
           s\<lparr>mode_notifications := mode_notifications s @ [None, Some (Num r)]\<rparr>))"
proof (intro conjI allI impI)
  assume "\<forall>n. m \<noteq> JNumber n"
  then show "onModeChange m s = s" by (cases m) (simp_all add: onModeChange_def)
next
  fix n assume "m = JNumber n \<and> (js_less n (Num 0) \<or> js_less (Num 2) n)"
  then show "onModeChange m s = s" by (auto simp add: onModeChange_def)
next
  fix n assume a: "m = JNumber n \<and> mode s \<noteq> Some n"
  have "\<not> (case mode s of None \<Rightarrow> False | Some cur \<Rightarrow> js_strict_equal cur n)"
  proof (cases "mode s")
    case None
    then show ?thesis by simp
  next
    case (Some cur)
    with a have "cur \<noteq> n" by simp
    then show ?thesis using Some by (cases cur; cases n) simp_all
  qed
  with a show "onModeChange m s = s" by (simp add: onModeChange_def)
next
  assume "m = JNumber NaN"
  then show "onModeChange m s = s"
    by (cases "mode s") (simp_all add: onModeChange_def js_strict_equal_NaN)
next
  fix r assume a: "m = JNumber (Num r) \<and> 0 \<le> r \<and> r \<le> 2 \<and> mode s = Some (Num r)"
  then show "onModeChange m s =
        s\<lparr>mode := None, mode_notifications := mode_notifications s @ [None],
          timeouts := timeouts s @ [Num r]\<rparr>"
    by (simp add: onModeChange_def set_mode_def)
next
  fix r assume a: "m = JNumber (Num r) \<and> 0 \<le> r \<and> r \<le> 2 \<and> mode s = Some (Num r)"
    and t: "timeouts s = []"
  have "s\<lparr>mode := Some (Num r)\<rparr> = s" using a by simp
  then show "run_timeout (onModeChange m s) =
           s\<lparr>mode_notifications := mode_notifications s @ [None, Some (Num r)]\<rparr>"
    using a t by (simp add: onModeChange_def set_mode_def run_timeout_def)
qed

theorem onModeChange_reset_witness:
  "onModeChange (JNumber FULL_RANGE) (ex_settings []) =
     (ex_settings [])\<lparr>mode := None, mode_notifications := [None], timeouts := [FULL_RANGE]\<rparr> \<and>
   run_timeout (onModeChange (JNumber FULL_RANGE) (ex_settings [])) =
     (ex_settings [])\<lparr>mode_notifications := [None, Some FULL_RANGE]\<rparr> \<and>
   onModeChange (JString ''1'') (ex_settings []) = ex_settings [] \<and>
   onModeChange (JNumber (Num 3)) (ex_settings []) = ex_settings [] \<and>
   onModeChange (JNumber MIN_MAX) (ex_settings []) = ex_settings []"
proof -
  let ?s = "ex_settings []"
  have s: "mode ?s = Some (Num 1)" "timeouts ?s = []" "mode_notifications ?s = []"
    by (simp_all add: ex_settings_def FULL_RANGE_def)
  have r: "(0::rat) \<le> 1" "(1::rat) \<le> 2" by simp_all
  have "onModeChange (JNumber (Num 1)) ?s =
          ?s\<lparr>mode := None, mode_notifications := mode_notifications ?s @ [None],
             timeouts := timeouts ?s @ [Num 1]\<rparr> \<and>
        (timeouts ?s = [] \<longrightarrow>
           run_timeout (onModeChange (JNumber (Num 1)) ?s) =
             ?s\<lparr>mode_notifications := mode_notifications ?s @ [None, Some (Num 1)]\<rparr>)"
    using onModeChange_reset [of "JNumber (Num 1)" ?s] s(1) r by blast
  then have a0: "onModeChange (JNumber (Num 1)) ?s =
          ?s\<lparr>mode := None, mode_notifications := mode_notifications ?s @ [None],
             timeouts := timeouts ?s @ [Num 1]\<rparr>"
    and b0: "run_timeout (onModeChange (JNumber (Num 1)) ?s) =
             ?s\<lparr>mode_notifications := mode_notifications ?s @ [None, Some (Num 1)]\<rparr>"
    using s(2) by blast+
  have a: "onModeChange (JNumber FULL_RANGE) ?s =
      ?s\<lparr>mode := None, mode_notifications := [None], timeouts := [FULL_RANGE]\<rparr>"
    using a0 s(2,3) by (simp add: FULL_RANGE_def)
  have b: "run_timeout (onModeChange (JNumber FULL_RANGE) ?s) =
      ?s\<lparr>mode_notifications := [None, Some FULL_RANGE]\<rparr>"
    using b0 s(3) by (simp add: FULL_RANGE_def)
  have c: "onModeChange (JString ''1'') ?s = ?s"
    using onModeChange_reset [of "JString ''1''" ?s] by simp
  have d: "onModeChange (JNumber (Num 3)) ?s = ?s"
    using onModeChange_reset [of "JNumber (Num 3)" ?s] by simp
  have "mode ?s \<noteq> Some (Num 0)" using s(1) by simp
  then have e: "onModeChange (JNumber MIN_MAX) ?s = ?s"
    using onModeChange_reset [of "JNumber (Num 0)" ?s] by (simp add: MIN_MAX_def)
  from a b c d e show ?thesis by blast
qed

end
